theory Spec2Isabelle
  imports Complex_Main
begin

section \<open>The AR "spot the animal" screen: data model\<close>

text \<open>
  The development embeds the round state machine of the React component
  \<^verbatim>\<open>ARScreen\<close> (file \<^verbatim>\<open>templates/app-base/src/components/screens/ARScreen.tsx\<close>) and,
  where a property is stated about them, the older revisions of the same component kept
  in the repository.  React state (\<^verbatim>\<open>useState\<close>) and refs (\<^verbatim>\<open>useRef\<close>) are the fields
  of one record that every handler takes and returns; a state setter is an immediate
  field update.  \<^verbatim>\<open>setTimeout\<close> appends a pending task, with its due time in
  milliseconds, to the timer queue of the state; \<^verbatim>\<open>Math.random()\<close> is an argument of
  the function that calls it.
\<close>

datatype AnimalType = gato | cachorro | galinha | vaca | porco

record AnimalConfig =
  name :: AnimalType
  topImage :: string
  arImage :: string

definition ANIMALS :: "AnimalConfig list" where
  "ANIMALS =
    [\<lparr>name = gato, topImage = ''gatotop.png'', arImage = ''Gato.png''\<rparr>,
     \<lparr>name = cachorro, topImage = ''cachorrotop.png'', arImage = ''Cachorro.png''\<rparr>,
     \<lparr>name = galinha, topImage = ''galinhatop.png'', arImage = ''Galinha.png''\<rparr>,
     \<lparr>name = vaca, topImage = ''vacatop.png'', arImage = ''Vaca.png''\<rparr>,
     \<lparr>name = porco, topImage = ''porcotop.png'', arImage = ''Porco.png''\<rparr>]"

definition TOTAL_ROUNDS :: nat where
  "TOTAL_ROUNDS = 5"

subsection \<open>Numbers\<close>

text \<open>
  The coordinates are JavaScript numbers, that is IEEE 754 double-precision values.  A
  finite double is given by the real number it denotes (the two zeros, which are equal
  for \<^verbatim>\<open>===\<close> and denote the same position, are not told apart); the other values
  are the two infinities and \<^verbatim>\<open>NaN\<close>.  An arithmetic operation returns the exact
  result rounded to the nearest double, ties to the even significand: the doubles near a
  real \<open>x\<close> are the multiples of \<open>quantum x\<close>, a power of two 52 binary places below
  the leading bit of \<open>x\<close> and never below the spacing of the subnormal numbers, and a
  result that rounds to 2 to the power 1024 or beyond is an infinity.  A decimal literal of
  the source denotes the double nearest to it.
\<close>

datatype JsNumber = Finite real | PlusInfinity | MinusInfinity | NaN

definition roundTiesToEven :: "real \<Rightarrow> int" where
  "roundTiesToEven x =
     (if x - of_int \<lfloor>x\<rfloor> < 1 / 2 then \<lfloor>x\<rfloor>
      else if 1 / 2 < x - of_int \<lfloor>x\<rfloor> then \<lfloor>x\<rfloor> + 1
      else if even \<lfloor>x\<rfloor> then \<lfloor>x\<rfloor> else \<lfloor>x\<rfloor> + 1)"

definition quantum :: "real \<Rightarrow> real" where
  "quantum x = 2 powr (of_int (max \<lfloor>log 2 \<bar>x\<bar>\<rfloor> (- 1022)) - 52)"

definition toDouble :: "real \<Rightarrow> JsNumber" where
  "toDouble x =
     (if x = 0 then Finite 0
      else if 2 ^ 1024 \<le> of_int (roundTiesToEven (x / quantum x)) * quantum x
      then PlusInfinity
      else if of_int (roundTiesToEven (x / quantum x)) * quantum x \<le> - (2 ^ 1024)
      then MinusInfinity
      else Finite (of_int (roundTiesToEven (x / quantum x)) * quantum x))"

fun dadd :: "JsNumber \<Rightarrow> JsNumber \<Rightarrow> JsNumber" where
  "dadd (Finite a) (Finite b) = toDouble (a + b)"
| "dadd NaN b = NaN"
| "dadd a NaN = NaN"
| "dadd PlusInfinity MinusInfinity = NaN"
| "dadd MinusInfinity PlusInfinity = NaN"
| "dadd PlusInfinity b = PlusInfinity"
| "dadd a PlusInfinity = PlusInfinity"
| "dadd MinusInfinity b = MinusInfinity"
| "dadd a MinusInfinity = MinusInfinity"

fun dneg :: "JsNumber \<Rightarrow> JsNumber" where
  "dneg (Finite a) = Finite (- a)"
| "dneg PlusInfinity = MinusInfinity"
| "dneg MinusInfinity = PlusInfinity"
| "dneg NaN = NaN"

definition dsub :: "JsNumber \<Rightarrow> JsNumber \<Rightarrow> JsNumber" where
  "dsub a b = dadd a (dneg b)"



definition MOVE_STEP :: JsNumber where
  "MOVE_STEP = toDouble (2 / 10)"

definition INITIAL_ANIMAL_Z :: JsNumber where
  "INITIAL_ANIMAL_Z = Finite (- 6)"

record Vec3 =
  vx :: JsNumber
  vy :: JsNumber
  vz :: JsNumber

datatype FeedbackType = success | error

datatype Sound = ClickSound | SuccessSound | ErrorSound

datatype Console = ConsoleWarn string | ConsoleError string

subsection \<open>The scene handle\<close>

text \<open>
  Modelled from the spec: the component \<^verbatim>\<open>ARSceneAFrame\<close> and its imperative handle
  (\<^verbatim>\<open>getScene\<close>, \<^verbatim>\<open>addEntity\<close>, \<^verbatim>\<open>removeEntity\<close>) are imported by the screen but are
  not among the source files.  Following the data model of the specification, a scene
  entity is an ephemeral visual object with a position, an image and an interactive flag;
  here it carries the attributes the screen passes to \<^verbatim>\<open>addEntity\<close>.  The attribute
  \<^verbatim>\<open>position\<close>, the string of three numbers in the source, is kept as the three numbers.
  \<^verbatim>\<open>addEntity\<close> returns the id of the entity it appends, a non-empty string that no
  earlier entity of the scene received; \<^verbatim>\<open>removeEntity\<close> deletes the entity of an id.
\<close>

record Entity =
  geometry :: string
  material :: string
  position_attr :: Vec3
  scale_attr :: string
  look_at :: string
  class_attr :: string
  data_animal :: AnimalType
  animation__scale :: string
  animation__scaleback :: string

record Scene =
  sceneEl :: bool
  entities :: "(string \<times> Entity) list"
  created :: nat
  hasUpdateEntityPosition :: bool

definition entityIdOf :: "nat \<Rightarrow> string" where
  "entityIdOf n = ''ar-entity-'' @ replicate n (CHR ''i'')"

definition addEntity :: "Entity \<Rightarrow> Scene \<Rightarrow> string \<times> Scene" where
  "addEntity e sc =
     (entityIdOf (created sc),
      sc\<lparr>entities := entities sc @ [(entityIdOf (created sc), e)],
         created := Suc (created sc)\<rparr>)"

definition removeEntity :: "string \<Rightarrow> Scene \<Rightarrow> Scene" where
  "removeEntity i sc = sc\<lparr>entities := filter (\<lambda>p. fst p \<noteq> i) (entities sc)\<rparr>"

definition setDataAnimal :: "string \<Rightarrow> AnimalType \<Rightarrow> Scene \<Rightarrow> Scene" where
  "setDataAnimal i a sc =
     sc\<lparr>entities := map (\<lambda>p. if fst p = i then (fst p, (snd p)\<lparr>data_animal := a\<rparr>) else p)
                         (entities sc)\<rparr>"

definition updateEntityPosition :: "string \<Rightarrow> Vec3 \<Rightarrow> Scene \<Rightarrow> Scene" where
  "updateEntityPosition i v sc =
     (if hasUpdateEntityPosition sc
      then sc\<lparr>entities := map (\<lambda>p. if fst p = i then (fst p, (snd p)\<lparr>position_attr := v\<rparr>) else p)
                              (entities sc)\<rparr>
      else sc)"

subsection \<open>Component state and pending timeouts\<close>

datatype Task =
    FadeIn bool
  | EnsureSceneVisible nat
  | StartFirstRound nat
  | ConfigureEntities string AnimalType string AnimalType
  | FeedbackEnd
  | SpawnNext nat

record ARState =
  arLoading :: bool
  isFadingIn :: bool
  currentRound :: nat
  sceneReady :: bool
  selectedAnimal :: "AnimalType option"
  feedbackType :: "FeedbackType option"
  isAnimating :: bool
  arSceneRef :: "Scene option"
  animalEntities_left :: "string option"
  animalEntities_right :: "string option"
  correctEntityIdRef :: "string option"
  correctEntityPosRef :: Vec3
  mediaStreamRef :: bool
  videoOpacity :: "string option"
  keydownInstalled :: bool
  animals :: "AnimalConfig list"
  usarVideo :: bool
  baseUrl :: string
  sounds :: "Sound list"
  console :: "Console list"
  navigated :: "string list"
  now :: nat
  timers :: "(nat \<times> Task) list"

text \<open>
  The state of the screen when it mounts: the initial values of the \<^verbatim>\<open>useState\<close> and
  \<^verbatim>\<open>useRef\<close> calls, the scene handle attached with an empty scene, the module-level
  array \<^verbatim>\<open>ANIMALS\<close>, and nothing played, logged, navigated or scheduled.
\<close>

definition initial :: "bool \<Rightarrow> string \<Rightarrow> ARState" where
  "initial video base =
    \<lparr>arLoading = True, isFadingIn = False, currentRound = 0, sceneReady = False,
     selectedAnimal = None, feedbackType = None, isAnimating = False,
     arSceneRef = Some \<lparr>sceneEl = True, entities = [], created = 0,
                        hasUpdateEntityPosition = False\<rparr>,
     animalEntities_left = None, animalEntities_right = None,
     correctEntityIdRef = None,
     correctEntityPosRef = \<lparr>vx = Finite (- (3 / 2)), vy = Finite 0, vz = Finite (- 10)\<rparr>,
     mediaStreamRef = False, videoOpacity = None, keydownInstalled = False,
     animals = ANIMALS, usarVideo = video, baseUrl = base,
     sounds = [], console = [], navigated = [], now = 0, timers = []\<rparr>"

text \<open>JavaScript truthiness of a \<^verbatim>\<open>string | null\<close>: null and the empty string are falsy.\<close>

definition truthy :: "string option \<Rightarrow> bool" where
  "truthy s = (case s of None \<Rightarrow> False | Some t \<Rightarrow> t \<noteq> [])"

text \<open>Array indexing: an index outside the array yields \<^verbatim>\<open>undefined\<close>, here \<open>None\<close>.\<close>

definition at_index :: "'a list \<Rightarrow> int \<Rightarrow> 'a option" where
  "at_index xs i = (if 0 \<le> i \<and> i < int (length xs) then Some (xs ! nat i) else None)"

definition setTimeout :: "Task \<Rightarrow> nat \<Rightarrow> ARState \<Rightarrow> ARState" where
  "setTimeout task delay st = st\<lparr>timers := timers st @ [(now st + delay, task)]\<rparr>"

section \<open>The operations of ARScreen.tsx\<close>

definition normalizePath :: "string \<Rightarrow> string \<Rightarrow> string" where
  "normalizePath base path =
     (if base = [] then (if take 1 path = ''/'' then path else ''/'' @ path)
      else base @ ''/'' @ (if take 1 path = ''/'' then drop 1 path else path))"

definition clearAnimals :: "ARState \<Rightarrow> ARState" where
  "clearAnimals st =
     (let st1 = (case (animalEntities_left st, arSceneRef st) of
                   (Some l, Some sc) \<Rightarrow>
                      if l \<noteq> [] then st\<lparr>arSceneRef := Some (removeEntity l sc),
                                          animalEntities_left := None\<rparr>
                      else st
                 | _ \<Rightarrow> st);
          st2 = (case (animalEntities_right st1, arSceneRef st1) of
                   (Some r, Some sc) \<Rightarrow>
                      if r \<noteq> [] then st1\<lparr>arSceneRef := Some (removeEntity r sc),
                                           animalEntities_right := None\<rparr>
                      else st1
                 | _ \<Rightarrow> st1)
      in st2\<lparr>correctEntityIdRef := None\<rparr>)"

definition leftPos :: Vec3 where
  "leftPos = \<lparr>vx = Finite (- (3 / 2)), vy = Finite 0, vz = INITIAL_ANIMAL_Z\<rparr>"

definition rightPos :: Vec3 where
  "rightPos = \<lparr>vx = Finite (3 / 2), vy = Finite 0, vz = INITIAL_ANIMAL_Z\<rparr>"

definition animalEntity :: "string \<Rightarrow> Vec3 \<Rightarrow> AnimalConfig \<Rightarrow> Entity" where
  "animalEntity base pos a =
     \<lparr>geometry = ''primitive: plane'',
      material = ''src: '' @ normalizePath base (''assets/images/'' @ arImage a)
                   @ ''; transparent: true; side: double'',
      position_attr = pos,
      scale_attr = ''1 1 1'',
      look_at = ''[camera]'',
      class_attr = ''clickable-animal'',
      data_animal = name a,
      animation__scale = ''property: scale; to: 1.1 1.1 1.1; dur: 200; startEvents: mouseenter'',
      animation__scaleback = ''property: scale; to: 1 1 1; dur: 200; startEvents: mouseleave''\<rparr>"

text \<open>
  \<^verbatim>\<open>spawnAnimals(correctAnimal, wrongAnimal)\<close>; \<open>rnd\<close> is the value of its
  \<^verbatim>\<open>Math.random()\<close>.  A name that \<^verbatim>\<open>ANIMALS.find\<close> does not find makes the callback
  throw where the configuration is first read, which is inside the call of
  \<^verbatim>\<open>addEntity\<close> for its slot: the state reached up to there is the result.
\<close>

definition spawnAnimals :: "AnimalType \<Rightarrow> AnimalType \<Rightarrow> real \<Rightarrow> ARState \<Rightarrow> ARState" where
  "spawnAnimals correctAnimal wrongAnimal rnd st =
     (if arSceneRef st = None \<or> \<not> sceneReady st
      then st\<lparr>console := console st @
                [ConsoleWarn ''[ARScreen] Nao e possivel spawnar animais - scene nao esta pronta'']\<rparr>
      else
        (let st1 = clearAnimals st in
         (case arSceneRef st1 of
            None \<Rightarrow> st1
          | Some sc \<Rightarrow>
             (if \<not> sceneEl sc
              then st1\<lparr>console := console st1 @
                         [ConsoleWarn ''[ARScreen] Scene element nao encontrado'']\<rparr>
              else
               (let correctAnimalConfig = find (\<lambda>a. name a = correctAnimal) (animals st1);
                    wrongAnimalConfig = find (\<lambda>a. name a = wrongAnimal) (animals st1);
                    correctOnLeft = (rnd > 1 / 2);
                    leftAnimal = (if correctOnLeft then correctAnimalConfig else wrongAnimalConfig);
                    rightAnimal = (if correctOnLeft then wrongAnimalConfig else correctAnimalConfig)
                in (case leftAnimal of
                      None \<Rightarrow> st1
                    | Some la \<Rightarrow>
                       (let added1 = addEntity (animalEntity (baseUrl st1) leftPos la) sc;
                            leftEntityId = fst added1
                        in (case rightAnimal of
                              None \<Rightarrow> st1\<lparr>arSceneRef := Some (snd added1)\<rparr>
                            | Some ra \<Rightarrow>
                               (let added2 = addEntity (animalEntity (baseUrl st1) rightPos ra)
                                                       (snd added1);
                                    rightEntityId = fst added2
                                in setTimeout
                                     (ConfigureEntities leftEntityId (name la) rightEntityId (name ra))
                                     200
                                     (st1\<lparr>arSceneRef := Some (snd added2),
                                          animalEntities_left := Some leftEntityId,
                                          animalEntities_right := Some rightEntityId,
                                          correctEntityIdRef :=
                                            Some (if correctOnLeft then leftEntityId
                                                  else rightEntityId),
                                          correctEntityPosRef :=
                                            (if correctOnLeft then leftPos else rightPos)\<rparr>))))))))))"

text \<open>
  The callback that \<^verbatim>\<open>spawnAnimals\<close> schedules after 200 ms: it writes the attribute
  \<^verbatim>\<open>data-animal\<close> again on the two entities, when they are still in the document.
\<close>

definition configureEntities ::
    "string \<Rightarrow> AnimalType \<Rightarrow> string \<Rightarrow> AnimalType \<Rightarrow> ARState \<Rightarrow> ARState" where
  "configureEntities l la r ra st =
     st\<lparr>arSceneRef := map_option (\<lambda>sc. setDataAnimal r ra (setDataAnimal l la sc)) (arSceneRef st)\<rparr>"

text \<open>
  The choice of the wrong animal, shared by \<^verbatim>\<open>startRound\<close> and the callback of
  \<^verbatim>\<open>handleAnimalClick\<close>: \<^verbatim>\<open>ANIMALS.filter(a => a.name !== correctAnimal.name)\<close> indexed
  by \<^verbatim>\<open>Math.floor(Math.random() * wrongAnimals.length)\<close>.
\<close>

definition wrongAnimals :: "AnimalConfig list \<Rightarrow> AnimalType \<Rightarrow> AnimalConfig list" where
  "wrongAnimals as correctName = filter (\<lambda>a. name a \<noteq> correctName) as"

definition randomWrongAnimal :: "AnimalConfig list \<Rightarrow> AnimalType \<Rightarrow> real \<Rightarrow> AnimalConfig option" where
  "randomWrongAnimal as correctName rnd =
     at_index (wrongAnimals as correctName)
              \<lfloor>rnd * real (length (wrongAnimals as correctName))\<rfloor>"

text \<open>
  The body both callers run for a round index below \<^verbatim>\<open>TOTAL_ROUNDS\<close>; reading
  \<^verbatim>\<open>.name\<close> of an \<^verbatim>\<open>undefined\<close> entry throws before anything is changed.
\<close>

definition spawnRound :: "nat \<Rightarrow> real \<Rightarrow> real \<Rightarrow> ARState \<Rightarrow> ARState" where
  "spawnRound roundIndex rndWrong rndSide st =
     (case at_index (animals st) (int roundIndex) of
        None \<Rightarrow> st
      | Some correctAnimal \<Rightarrow>
          (case randomWrongAnimal (animals st) (name correctAnimal) rndWrong of
             None \<Rightarrow> st
           | Some wrong \<Rightarrow> spawnAnimals (name correctAnimal) (name wrong) rndSide st))"

definition startRound :: "nat \<Rightarrow> real \<Rightarrow> real \<Rightarrow> ARState \<Rightarrow> ARState" where
  "startRound roundIndex rndWrong rndSide st =
     (if roundIndex \<ge> TOTAL_ROUNDS then st\<lparr>currentRound := 0\<rparr>
      else spawnRound roundIndex rndWrong rndSide st)"

text \<open>
  \<^verbatim>\<open>handleAnimalClick(clickedAnimal, correctAnimal)\<close>: the guard on \<^verbatim>\<open>isAnimating\<close>, the
  click sound, the feedback flags, the success or error sound, \<^verbatim>\<open>clearAnimals()\<close>, and
  the callback scheduled after 2000 ms.
\<close>

definition handleAnimalClick :: "AnimalType \<Rightarrow> AnimalType \<Rightarrow> ARState \<Rightarrow> ARState" where
  "handleAnimalClick clickedAnimal correctAnimal st =
     (if isAnimating st then st
      else
        (let isCorrect = (clickedAnimal = correctAnimal);
             st1 = st\<lparr>isAnimating := True, sounds := sounds st @ [ClickSound]\<rparr>;
             st2 = st1\<lparr>selectedAnimal := Some clickedAnimal,
                       feedbackType := Some (if isCorrect then success else error)\<rparr>;
             st3 = st2\<lparr>sounds := sounds st2 @ [if isCorrect then SuccessSound else ErrorSound]\<rparr>;
             st4 = clearAnimals st3
         in setTimeout FeedbackEnd 2000 st4))"

text \<open>
  The callback of that timeout: the flags are reset and the updater of
  \<^verbatim>\<open>setCurrentRound\<close> returns \<^verbatim>\<open>prev + 1\<close>, scheduling the spawn of the next round
  100 ms later when that round exists.
\<close>

definition feedbackEndCallback :: "ARState \<Rightarrow> ARState" where
  "feedbackEndCallback st =
     (let nextRound = currentRound st + 1;
          st1 = st\<lparr>selectedAnimal := None, feedbackType := None, isAnimating := False,
                    currentRound := nextRound\<rparr>
      in if nextRound < TOTAL_ROUNDS then setTimeout (SpawnNext nextRound) 100 st1 else st1)"

text \<open>
  The touch listener.  The ray cast is done by the rendering library: its outcome, the
  id of the closest entity of class \<^verbatim>\<open>clickable-animal\<close> that the ray meets, is part
  of the event, with the presence of a touch point, of the global \<^verbatim>\<open>THREE\<close> and of the
  camera object.
\<close>

record TouchEnv =
  touch0 :: bool
  hasTHREE :: bool
  hasCameraObj :: bool
  closest :: "string option"

definition handleTouchStart :: "TouchEnv \<Rightarrow> ARState \<Rightarrow> ARState" where
  "handleTouchStart env st =
     (if isAnimating st then st
      else if \<not> touch0 env then st
      else if \<not> hasTHREE env then st
      else if \<not> hasCameraObj env then st
      else
        (case closest env of
           None \<Rightarrow> st
         | Some i \<Rightarrow>
            (case arSceneRef st of
               None \<Rightarrow> st
             | Some sc \<Rightarrow>
                (case map_of (entities sc) i of
                   None \<Rightarrow> st
                 | Some el \<Rightarrow>
                    (let animalName = data_animal el;
                         currentAnimal = (if currentRound st < TOTAL_ROUNDS
                                          then at_index (animals st) (int (currentRound st))
                                          else None)
                     in (case currentAnimal of
                           None \<Rightarrow> st
                         | Some ca \<Rightarrow> handleAnimalClick animalName (name ca) st))))))"

text \<open>
  The two images of the desktop test mode and their click handlers: the image of
  \<^verbatim>\<open>ANIMALS[currentRound % ANIMALS.length]\<close> (\<open>onCurr\<close>) and the image of the first other
  animal.
\<close>

definition handleDesktopAnimalClick :: "AnimalType \<Rightarrow> AnimalType \<Rightarrow> ARState \<Rightarrow> ARState" where
  "handleDesktopAnimalClick animal correct st = handleAnimalClick animal correct st"

definition desktopImageClick :: "bool \<Rightarrow> ARState \<Rightarrow> ARState" where
  "desktopImageClick onCurr st =
     (if length (animals st) = 0 then st
      else
        (case at_index (animals st) (int (currentRound st mod length (animals st))) of
           None \<Rightarrow> st
         | Some cur \<Rightarrow>
            (case at_index (wrongAnimals (animals st) (name cur)) 0 of
               None \<Rightarrow> st
             | Some oth \<Rightarrow>
                (if onCurr then handleDesktopAnimalClick (name cur) (name cur) st
                 else handleDesktopAnimalClick (name oth) (name cur) st))))"

definition desktopImagesShown :: "ARState \<Rightarrow> bool" where
  "desktopImagesShown st = (sceneReady st \<and> selectedAnimal st = None \<and> \<not> usarVideo st)"

text \<open>The values derived at each render for the top image.\<close>

definition currentAnimal :: "ARState \<Rightarrow> AnimalConfig option" where
  "currentAnimal st =
     (if currentRound st < TOTAL_ROUNDS then at_index (animals st) (int (currentRound st)) else None)"

definition topImageSrc :: "ARState \<Rightarrow> string" where
  "topImageSrc st =
     (case currentAnimal st of
        Some a \<Rightarrow> normalizePath (baseUrl st) (''assets/images/'' @ topImage a)
      | None \<Rightarrow> [])"

definition topImageShown :: "ARState \<Rightarrow> bool" where
  "topImageShown st = (currentAnimal st \<noteq> None \<and> selectedAnimal st = None)"

text \<open>
  The \<^verbatim>\<open>keydown\<close> handler of the desktop controls.  \<^verbatim>\<open>toLowerCase\<close> is taken on the
  ASCII letters, the only characters whose lower case is one of the four letters the
  handler compares with.
\<close>

definition lowerChar :: "char \<Rightarrow> char" where
  "lowerChar c =
     (if (65::nat) \<le> of_char c \<and> of_char c \<le> (90::nat) then char_of (of_char c + (32::nat)) else c)"

definition toLowerCase :: "string \<Rightarrow> string" where
  "toLowerCase s = map lowerChar s"

definition handler :: "string \<Rightarrow> ARState \<Rightarrow> ARState" where
  "handler key st =
     (case correctEntityIdRef st of
        None \<Rightarrow> st
      | Some ident \<Rightarrow>
         (if ident = [] \<or> arSceneRef st = None then st
          else
            (let z1 = (if toLowerCase key = ''w'' then dsub (vz (correctEntityPosRef st)) MOVE_STEP
                       else vz (correctEntityPosRef st));
                 z2 = (if toLowerCase key = ''s'' then dadd z1 MOVE_STEP else z1);
                 x1 = (if toLowerCase key = ''a'' then dsub (vx (correctEntityPosRef st)) MOVE_STEP
                       else vx (correctEntityPosRef st));
                 x2 = (if toLowerCase key = ''d'' then dadd x1 MOVE_STEP else x1);
                 y1 = (if key = ''ArrowUp'' then dadd (vy (correctEntityPosRef st)) MOVE_STEP
                       else vy (correctEntityPosRef st));
                 y2 = (if key = ''ArrowDown'' then dsub y1 MOVE_STEP else y1);
                 moved = (toLowerCase key = ''w'' \<or> toLowerCase key = ''s''
                          \<or> toLowerCase key = ''a'' \<or> toLowerCase key = ''d''
                          \<or> key = ''ArrowUp'' \<or> key = ''ArrowDown'')
             in if moved
                then st\<lparr>correctEntityPosRef := \<lparr>vx = x2, vy = y2, vz = z2\<rparr>,
                        arSceneRef := map_option
                           (updateEntityPosition ident \<lparr>vx = x2, vy = y2, vz = z2\<rparr>)
                           (arSceneRef st)\<rparr>
                else st)))"

text \<open>
  The camera effect.  The two awaited promises, \<^verbatim>\<open>getUserMedia\<close> and \<^verbatim>\<open>video.play()\<close>,
  settle outside the program: an outcome is pending, rejected with a value of which the
  handler reads the property \<^verbatim>\<open>name\<close> (\<open>None\<close> when the value is falsy or has no such
  property), or resolved.  A pending promise leaves the rest of the function unexecuted.
\<close>

datatype Settled = Pending | Rejected "string option" | Resolved

record CameraEnv =
  getUserMedia :: Settled
  videoPlay :: Settled

definition cameraReady :: "ARState \<Rightarrow> ARState" where
  "cameraReady st = setTimeout (FadeIn True) 100 (st\<lparr>arLoading := False\<rparr>)"

definition cameraCatch :: "string option \<Rightarrow> ARState \<Rightarrow> ARState" where
  "cameraCatch err st =
     setTimeout (FadeIn False) 100
       (st\<lparr>console := console st @
               [if err = Some ''AbortError''
                then ConsoleWarn ''AbortError detectado ao configurar camera''
                else ConsoleError ''Erro ao configurar camera:''],
           arLoading := False\<rparr>)"

definition setupCamera :: "CameraEnv \<Rightarrow> ARState \<Rightarrow> ARState" where
  "setupCamera env st =
     (case getUserMedia env of
        Pending \<Rightarrow> st
      | Rejected err \<Rightarrow> cameraCatch err st
      | Resolved \<Rightarrow>
         (let st1 = st\<lparr>videoOpacity := Some ''0'', mediaStreamRef := True\<rparr>
          in (case videoPlay env of
                Pending \<Rightarrow> st1
              | Rejected playErr \<Rightarrow>
                  cameraReady
                    (st1\<lparr>console := console st1 @
                           [ConsoleWarn ''[ARScreen] Falha ao chamar video.play():'']\<rparr>)
              | Resolved \<Rightarrow> cameraReady st1)))"

definition cameraEffect :: "CameraEnv \<Rightarrow> ARState \<Rightarrow> ARState" where
  "cameraEffect env st =
     (if \<not> usarVideo st then setTimeout (FadeIn False) 100 (st\<lparr>arLoading := False\<rparr>)
      else setupCamera env st)"

definition fadeIn :: "bool \<Rightarrow> ARState \<Rightarrow> ARState" where
  "fadeIn withVideo st =
     (if withVideo then st\<lparr>isFadingIn := True, videoOpacity := Some ''1''\<rparr>
      else st\<lparr>isFadingIn := True\<rparr>)"

section \<open>The event loop\<close>

text \<open>
  The effects whose dependencies are \<^verbatim>\<open>sceneReady\<close> and \<^verbatim>\<open>currentRound\<close> run again after
  a render in which one of the two changed: the effect of the desktop controls installs
  the \<^verbatim>\<open>keydown\<close> handler when the scene is ready and a correct entity is referenced at
  that moment, and removes the one of the previous run; the effect that makes the scene
  visible schedules, after 200 ms and then 300 ms more, the start of round 0, deciding
  on the value of \<^verbatim>\<open>currentRound\<close> of that render.
\<close>

definition roundEffects :: "ARState \<Rightarrow> ARState" where
  "roundEffects st =
     (let st1 = st\<lparr>keydownInstalled := (sceneReady st \<and> truthy (correctEntityIdRef st))\<rparr>
      in if sceneReady st1 \<and> (case arSceneRef st1 of None \<Rightarrow> False | Some sc \<Rightarrow> sceneEl sc)
         then setTimeout (EnsureSceneVisible (currentRound st1)) 200 st1
         else st1)"

definition onSceneReady :: "ARState \<Rightarrow> ARState" where
  "onSceneReady st = (if sceneReady st then st else roundEffects (st\<lparr>sceneReady := True\<rparr>))"

text \<open>Running the callback of a timeout; the two reals are its \<^verbatim>\<open>Math.random()\<close> values.\<close>

fun runTask :: "Task \<Rightarrow> real \<Rightarrow> real \<Rightarrow> ARState \<Rightarrow> ARState" where
  "runTask (FadeIn withVideo) rndWrong rndSide st = fadeIn withVideo st"
| "runTask (EnsureSceneVisible r) rndWrong rndSide st = setTimeout (StartFirstRound r) 300 st"
| "runTask (StartFirstRound r) rndWrong rndSide st =
     (if r = 0 then startRound 0 rndWrong rndSide st else st)"
| "runTask (ConfigureEntities l la r ra) rndWrong rndSide st = configureEntities l la r ra st"
| "runTask FeedbackEnd rndWrong rndSide st = roundEffects (feedbackEndCallback st)"
| "runTask (SpawnNext nextRound) rndWrong rndSide st = spawnRound nextRound rndWrong rndSide st"

text \<open>The pending timeout that fires next: the earliest due, the first set among equals.\<close>

fun nextTimer :: "(nat \<times> Task) list \<Rightarrow> (nat \<times> Task) option" where
  "nextTimer [] = None"
| "nextTimer (t # ts) =
     (case nextTimer ts of
        None \<Rightarrow> Some t
      | Some u \<Rightarrow> if fst u < fst t then Some u else Some t)"

datatype Event =
    CameraSettles CameraEnv
  | SceneReady
  | Touch TouchEnv
  | DesktopClick bool
  | KeyDown string
  | Wait nat
  | Fire real real

text \<open>
  One step of the screen.  An event that cannot happen in a state has no successor:
  a click on a desktop image that is not rendered, time passing beyond a timeout that
  is due, a timeout firing when none is pending.  The touch listener exists once the
  scene is ready.
\<close>

definition step :: "Event \<Rightarrow> ARState \<Rightarrow> ARState option" where
  "step ev st =
     (case ev of
        CameraSettles env \<Rightarrow> Some (cameraEffect env st)
      | SceneReady \<Rightarrow> Some (onSceneReady st)
      | Touch env \<Rightarrow>
          Some (if sceneReady st \<and> (case arSceneRef st of None \<Rightarrow> False | Some sc \<Rightarrow> sceneEl sc)
                then handleTouchStart env st else st)
      | DesktopClick onCurr \<Rightarrow>
          (if desktopImagesShown st then Some (desktopImageClick onCurr st) else None)
      | KeyDown key \<Rightarrow> Some (if keydownInstalled st then handler key st else st)
      | Wait dt \<Rightarrow>
          (if list_all (\<lambda>t. now st + dt \<le> fst t) (timers st)
           then Some (st\<lparr>now := now st + dt\<rparr>) else None)
      | Fire rndWrong rndSide \<Rightarrow>
          (case nextTimer (timers st) of
             None \<Rightarrow> None
           | Some t \<Rightarrow>
               Some (runTask (snd t) rndWrong rndSide
                       (st\<lparr>now := max (now st) (fst t), timers := remove1 t (timers st)\<rparr>))))"

fun run :: "Event list \<Rightarrow> ARState \<Rightarrow> ARState option" where
  "run [] st = Some st"
| "run (ev # evs) st = (case step ev st of None \<Rightarrow> None | Some st1 \<Rightarrow> run evs st1)"

section \<open>The overlay circles of the earlier revisions\<close>


datatype NameValue = AnimalName AnimalType | PrototypeMember string




record Circle =
  circle_x :: JsNumber
  circle_y :: JsNumber
  circle_key :: string
  color :: string
  animalName :: NameValue
  screenPxRadius :: nat
  entityId :: string




section \<open>The selection handler of the earlier revision\<close>

text \<open>
  The second document of \<^verbatim>\<open>src/unnamed/part_000\<close> is a revision of the same screen
  whose selection handler treats the two outcomes differently.  Its state has the fields
  that handler and its timeouts read and write; the fields carry the prefix \<open>p_\<close>.
  Timeouts have ids there, since the handler cancels one with \<^verbatim>\<open>clearTimeout\<close>.  The
  spawn of that revision waits for the images named in \<^verbatim>\<open>pendingARImages\<close> and is not
  part of this model.
\<close>

datatype Phase = show_current | hide_current | show_next | idle

record TopImageAnim =
  anim_current :: "AnimalConfig option"
  anim_next :: "AnimalConfig option"
  phase :: Phase

datatype PrevTask = HideCurrent nat | ShowNext nat | AdvanceRound nat | ErrorEnd

record PrevState =
  p_currentRound :: nat
  p_currentRoundRef :: nat
  p_sceneReady :: bool
  p_selectedAnimal :: "AnimalType option"
  p_feedbackType :: "FeedbackType option"
  p_isAnimating :: bool
  p_feedbackMounted :: bool
  p_topImageAnim :: TopImageAnim
  p_pendingARImages :: "AnimalType option \<times> AnimalType option"
  p_canDisplayAnimals :: bool
  p_animTimeoutRef :: "nat option"
  p_arSceneRef :: "Scene option"
  p_animalEntities_left :: "string option"
  p_animalEntities_right :: "string option"
  p_correctEntityIdRef :: "string option"
  p_animalsWorldPos_left :: "Vec3 option"
  p_animalsWorldPos_right :: "Vec3 option"
  p_entityIdToAnimal :: "(string \<times> AnimalType) list"
  p_animals :: "AnimalConfig list"
  p_sounds :: "Sound list"
  p_now :: nat
  p_timers :: "(nat \<times> nat \<times> PrevTask) list"
  p_nextTimerId :: nat

definition p_initial :: PrevState where
  "p_initial =
    \<lparr>p_currentRound = 0, p_currentRoundRef = 0, p_sceneReady = True,
     p_selectedAnimal = None, p_feedbackType = None, p_isAnimating = False,
     p_feedbackMounted = False,
     p_topImageAnim = \<lparr>anim_current = at_index ANIMALS 0, anim_next = None,
                         phase = show_current\<rparr>,
     p_pendingARImages = (None, None), p_canDisplayAnimals = False,
     p_animTimeoutRef = None,
     p_arSceneRef = Some \<lparr>sceneEl = True, entities = [], created = 0,
                          hasUpdateEntityPosition = False\<rparr>,
     p_animalEntities_left = None, p_animalEntities_right = None,
     p_correctEntityIdRef = None,
     p_animalsWorldPos_left = None, p_animalsWorldPos_right = None,
     p_entityIdToAnimal = [], p_animals = ANIMALS, p_sounds = [],
     p_now = 0, p_timers = [], p_nextTimerId = 1\<rparr>"

text \<open>\<^verbatim>\<open>window.setTimeout\<close> returns the id of the timeout; \<^verbatim>\<open>clearTimeout\<close> drops it.\<close>

definition p_setTimeout :: "PrevTask \<Rightarrow> nat \<Rightarrow> PrevState \<Rightarrow> nat \<times> PrevState" where
  "p_setTimeout task delay st =
     (p_nextTimerId st,
      st\<lparr>p_timers := p_timers st @ [(p_nextTimerId st, p_now st + delay, task)],
         p_nextTimerId := Suc (p_nextTimerId st)\<rparr>)"

definition p_clearTimeout :: "nat \<Rightarrow> PrevState \<Rightarrow> PrevState" where
  "p_clearTimeout ident st = st\<lparr>p_timers := filter (\<lambda>t. fst t \<noteq> ident) (p_timers st)\<rparr>"

definition p_clearAnimals :: "PrevState \<Rightarrow> PrevState" where
  "p_clearAnimals st =
     (let st1 = (case (p_animalEntities_left st, p_arSceneRef st) of
                   (Some l, Some sc) \<Rightarrow>
                      if l \<noteq> [] then st\<lparr>p_arSceneRef := Some (removeEntity l sc),
                                          p_animalEntities_left := None\<rparr>
                      else st
                 | _ \<Rightarrow> st);
          st2 = (case (p_animalEntities_right st1, p_arSceneRef st1) of
                   (Some r, Some sc) \<Rightarrow>
                      if r \<noteq> [] then st1\<lparr>p_arSceneRef := Some (removeEntity r sc),
                                           p_animalEntities_right := None\<rparr>
                      else st1
                 | _ \<Rightarrow> st1);
          st3 = st2\<lparr>p_correctEntityIdRef := None, p_animalsWorldPos_left := None,
                     p_animalsWorldPos_right := None, p_entityIdToAnimal := []\<rparr>
      in (case p_arSceneRef st3 of
            None \<Rightarrow> st3
          | Some sc \<Rightarrow>
              if sceneEl sc
              then st3\<lparr>p_arSceneRef :=
                         Some (sc\<lparr>entities := filter (\<lambda>e. class_attr (snd e) \<noteq> ''clickable-animal'')
                                                     (entities sc)\<rparr>)\<rparr>
              else st3))"

text \<open>
  The request for the entities of a round, as the callbacks below and the round effect
  make it: a random wrong animal for the correct one, stored in \<^verbatim>\<open>pendingARImages\<close>.
\<close>

definition p_requestRound :: "AnimalConfig \<Rightarrow> real \<Rightarrow> PrevState \<Rightarrow> PrevState" where
  "p_requestRound correctCfg rnd st =
     (case randomWrongAnimal (p_animals st) (name correctCfg) rnd of
        None \<Rightarrow> st
      | Some wrong \<Rightarrow>
          st\<lparr>p_pendingARImages := (Some (name correctCfg), Some (name wrong)),
             p_canDisplayAnimals := False\<rparr>)"

definition p_handleAnimalClick :: "AnimalType \<Rightarrow> AnimalType \<Rightarrow> PrevState \<Rightarrow> PrevState" where
  "p_handleAnimalClick clickedAnimal correctAnimalIgnored st =
     (if p_isAnimating st then st
      else
        (let st1 = st\<lparr>p_isAnimating := True, p_sounds := p_sounds st @ [ClickSound]\<rparr>;
             logicCurrentRound = p_currentRoundRef st1;
             currentAnimal = (if logicCurrentRound < TOTAL_ROUNDS
                              then at_index (p_animals st1) (int logicCurrentRound) else None);
             correctAnimal = map_option name currentAnimal;
             isCorrect = (Some clickedAnimal = correctAnimal);
             st2 = st1\<lparr>p_selectedAnimal := Some clickedAnimal,
                       p_feedbackType := Some (if isCorrect then success else error)\<rparr>;
             st3 = (p_clearAnimals st2)\<lparr>p_feedbackMounted := False\<rparr>
         in if isCorrect
            then
              (let st4 = st3\<lparr>p_sounds := p_sounds st3 @ [SuccessSound]\<rparr>;
                   st5 = (case p_animTimeoutRef st4 of
                            None \<Rightarrow> st4
                          | Some ident \<Rightarrow> if ident = 0 then st4 else p_clearTimeout ident st4);
                   scheduled = p_setTimeout (HideCurrent logicCurrentRound) 800 st5
               in (snd scheduled)\<lparr>p_animTimeoutRef := Some (fst scheduled)\<rparr>)
            else
              snd (p_setTimeout ErrorEnd 1700
                     (st3\<lparr>p_sounds := p_sounds st3 @ [ErrorSound]\<rparr>))))"

text \<open>
  The effects of that revision that depend on \<^verbatim>\<open>currentRound\<close>: the ref that mirrors
  it, and the effect that hides the top image after the last round or requests the
  entities of the new round.
\<close>

definition p_roundEffects :: "real \<Rightarrow> PrevState \<Rightarrow> PrevState" where
  "p_roundEffects rnd st =
     (let st1 = st\<lparr>p_currentRoundRef := p_currentRound st\<rparr>
      in if \<not> p_sceneReady st1 then st1
         else if p_currentRound st1 \<ge> TOTAL_ROUNDS
         then st1\<lparr>p_topImageAnim := \<lparr>anim_current = None, anim_next = None, phase = idle\<rparr>\<rparr>
         else
           (let st2 = st1\<lparr>p_canDisplayAnimals := False\<rparr>
            in (case at_index (p_animals st2) (int (p_currentRound st2)) of
                  None \<Rightarrow> st2
                | Some cfg \<Rightarrow> p_requestRound cfg rnd st2)))"

fun p_runTask :: "PrevTask \<Rightarrow> real \<Rightarrow> real \<Rightarrow> PrevState \<Rightarrow> PrevState" where
  "p_runTask (HideCurrent l) rnd rndEffect st =
     snd (p_setTimeout (ShowNext l) 600
            (st\<lparr>p_topImageAnim := (p_topImageAnim st)\<lparr>phase := hide_current\<rparr>\<rparr>))"
| "p_runTask (ShowNext l) rnd rndEffect st =
     snd (p_setTimeout (AdvanceRound l) 600
            (st\<lparr>p_topImageAnim := (p_topImageAnim st)
                    \<lparr>anim_next := at_index (p_animals st) (int (l + 1)), phase := show_next\<rparr>\<rparr>))"
| "p_runTask (AdvanceRound l) rnd rndEffect st =
     (let st1 = st\<lparr>p_topImageAnim :=
                      \<lparr>anim_current = at_index (p_animals st) (int (l + 1)), anim_next = None,
                       phase = (if l + 1 < TOTAL_ROUNDS then show_current else idle)\<rparr>,
                    p_currentRound := p_currentRound st + 1,
                    p_selectedAnimal := None, p_feedbackType := None,
                    p_isAnimating := False, p_feedbackMounted := False\<rparr>;
          st2 = (if l + 1 < TOTAL_ROUNDS
                 then (case at_index (p_animals st1) (int (l + 1)) of
                         None \<Rightarrow> st1
                       | Some nextAnimal \<Rightarrow> p_requestRound nextAnimal rnd st1)
                 else st1)
      in p_roundEffects rndEffect st2)"
| "p_runTask ErrorEnd rnd rndEffect st =
     (let st1 = st\<lparr>p_selectedAnimal := None, p_feedbackType := None,
                    p_isAnimating := False, p_feedbackMounted := False\<rparr>
      in if p_currentRoundRef st1 < TOTAL_ROUNDS
         then (case at_index (p_animals st1) (int (p_currentRoundRef st1)) of
                 None \<Rightarrow> st1
               | Some cfg \<Rightarrow> p_requestRound cfg rnd st1)
         else st1)"

fun p_nextTimer :: "(nat \<times> nat \<times> PrevTask) list \<Rightarrow> (nat \<times> nat \<times> PrevTask) option" where
  "p_nextTimer [] = None"
| "p_nextTimer (t # ts) =
     (case p_nextTimer ts of
        None \<Rightarrow> Some t
      | Some u \<Rightarrow> if fst (snd u) < fst (snd t) then Some u else Some t)"

text \<open>The next pending timeout of that revision fires.\<close>

definition p_fire :: "real \<Rightarrow> real \<Rightarrow> PrevState \<Rightarrow> PrevState option" where
  "p_fire rnd rndEffect st =
     (case p_nextTimer (p_timers st) of
        None \<Rightarrow> None
      | Some t \<Rightarrow>
          Some (p_runTask (snd (snd t)) rnd rndEffect
                  (st\<lparr>p_now := max (p_now st) (fst (snd t)),
                      p_timers := remove1 t (p_timers st)\<rparr>)))"

section \<open>Notions used to state the properties\<close>

text \<open>The entities of the scene behind the handle; none when the handle is null.\<close>

definition sceneEntities :: "ARState \<Rightarrow> (string \<times> Entity) list" where
  "sceneEntities st = (case arSceneRef st of None \<Rightarrow> [] | Some sc \<Rightarrow> entities sc)"


text \<open>
  A complete game on a device: the camera is refused, the scene becomes ready, and in
  each of the five rounds the player touches the left entity, which is the correct one
  since every \<^verbatim>\<open>Math.random()\<close> of the side returns 0.7.  Every pending timeout fires
  before the next touch.
\<close>

definition touchEntity :: "nat \<Rightarrow> Event" where
  "touchEntity n =
     Touch \<lparr>touch0 = True, hasTHREE = True, hasCameraObj = True,
            closest = Some (entityIdOf n)\<rparr>"

definition firstRound :: "Event list" where
  "firstRound =
     [CameraSettles \<lparr>getUserMedia = Rejected (Some ''NotAllowedError''), videoPlay = Pending\<rparr>,
      SceneReady, Fire 0 0, Fire 0 0, Fire 0 (7 / 10), Fire 0 0, touchEntity 0, Fire 0 0]"

definition laterRound :: "nat \<Rightarrow> Event list" where
  "laterRound n =
     [Fire 0 (7 / 10), Fire 0 0, Fire 0 0, Fire 0 0, touchEntity (2 * n), Fire 0 0]"

definition fullGame :: "Event list" where
  "fullGame = firstRound @ laterRound 1 @ laterRound 2 @ laterRound 3 @ laterRound 4
              @ [Fire 0 0, Fire 0 0]"

text \<open>
  The state of that game when the feedback of round \<open>k - 1\<close> has just ended at time
  \<open>t\<close>: the index is \<open>k\<close>, the scene is empty, and the spawn of round \<open>k\<close> is pending.
\<close>

definition afterRound :: "nat \<Rightarrow> nat \<Rightarrow> ARState" where
  "afterRound k t =
    \<lparr>arLoading = False, isFadingIn = True, currentRound = k, sceneReady = True,
     selectedAnimal = None, feedbackType = None, isAnimating = False,
     arSceneRef = Some \<lparr>sceneEl = True, entities = [], created = 2 * k,
                        hasUpdateEntityPosition = False\<rparr>,
     animalEntities_left = None, animalEntities_right = None,
     correctEntityIdRef = None, correctEntityPosRef = leftPos,
     mediaStreamRef = False, videoOpacity = None, keydownInstalled = False,
     animals = ANIMALS, usarVideo = True, baseUrl = [],
     sounds = concat (replicate k [ClickSound, SuccessSound]),
     console = [ConsoleError ''Erro ao configurar camera:''],
     navigated = [], now = t,
     timers = (if k < TOTAL_ROUNDS then [(t + 100, SpawnNext k)] else [])
              @ [(t + 200, EnsureSceneVisible k)]\<rparr>"

text \<open>
  The position that the \<^verbatim>\<open>keydown\<close> handler stores for a key when it moves the entity:
  the six tests of the handler applied to the coordinates of the position \<open>p\<close>.
\<close>

definition handler_position :: "string \<Rightarrow> Vec3 \<Rightarrow> Vec3" where
  "handler_position key p =
     \<lparr>vx = (if toLowerCase key = ''d''
            then dadd (if toLowerCase key = ''a'' then dsub (vx p) MOVE_STEP else vx p) MOVE_STEP
            else (if toLowerCase key = ''a'' then dsub (vx p) MOVE_STEP else vx p)),
      vy = (if key = ''ArrowDown''
            then dsub (if key = ''ArrowUp'' then dadd (vy p) MOVE_STEP else vy p) MOVE_STEP
            else (if key = ''ArrowUp'' then dadd (vy p) MOVE_STEP else vy p)),
      vz = (if toLowerCase key = ''s''
            then dadd (if toLowerCase key = ''w'' then dsub (vz p) MOVE_STEP else vz p) MOVE_STEP
            else (if toLowerCase key = ''w'' then dsub (vz p) MOVE_STEP else vz p))\<rparr>"

definition handler_moved :: "string \<Rightarrow> bool" where
  "handler_moved key =
     (toLowerCase key = ''w'' \<or> toLowerCase key = ''s''
      \<or> toLowerCase key = ''a'' \<or> toLowerCase key = ''d''
      \<or> key = ''ArrowUp'' \<or> key = ''ArrowDown'')"

text \<open>
  The desktop test mode, with a click on the image of the current animal 10 ms after
  the scene is ready: the timeouts that start round 0 fire afterwards, during the
  feedback of that click, and then the feedback ends.
\<close>

definition earlyDesktopClick :: "Event list" where
  "earlyDesktopClick =
     [SceneReady, Wait 10, DesktopClick True, Fire 0 0, Fire 0 (7 / 10), Fire 0 0, Fire 0 0]"

definition afterEarlyClick :: ARState where
  "afterEarlyClick = the (run earlyDesktopClick (initial False []))"

text \<open>
  The pending callbacks that end a feedback, and the states in which no pending timeout
  is overdue.
\<close>

definition feedbackPending :: "ARState \<Rightarrow> (nat \<times> Task) list" where
  "feedbackPending st = filter (\<lambda>t. snd t = FeedbackEnd) (timers st)"

definition timely :: "ARState \<Rightarrow> bool" where
  "timely st = list_all (\<lambda>t. now st \<le> fst t) (timers st)"

text \<open>
  The feedback of the selection of animal \<open>c\<close> is on screen with flag \<open>fb\<close>, to end at
  time \<open>d\<close>; and the state in which no feedback is on screen and none is to end.
\<close>

definition overlayShown :: "AnimalType \<Rightarrow> FeedbackType \<Rightarrow> nat \<Rightarrow> ARState \<Rightarrow> bool" where
  "overlayShown c fb d st =
     (isAnimating st \<and> selectedAnimal st = Some c \<and> feedbackType st = Some fb
      \<and> feedbackPending st = [(d, FeedbackEnd)] \<and> timely st)"

definition calm :: "ARState \<Rightarrow> bool" where
  "calm st =
     (\<not> isAnimating st \<and> selectedAnimal st = None \<and> feedbackType st = None
      \<and> feedbackPending st = [] \<and> timely st)"

text \<open>
  A step from \<open>st\<close> to \<open>st'\<close> that is neither a selection nor the end of a feedback: the
  flags, the round index and the clock are as before, and the timeouts it adds are not
  overdue and do not end a feedback.
\<close>

definition quiet :: "ARState \<Rightarrow> ARState \<Rightarrow> bool" where
  "quiet st st' =
     (isAnimating st' = isAnimating st \<and> selectedAnimal st' = selectedAnimal st
      \<and> feedbackType st' = feedbackType st \<and> currentRound st' = currentRound st
      \<and> now st' = now st
      \<and> take (length (timers st)) (timers st') = timers st
      \<and> list_all (\<lambda>t. snd t \<noteq> FeedbackEnd \<and> now st \<le> fst t)
                  (drop (length (timers st)) (timers st')))"

section \<open>Properties\<close>

subsection \<open>Auxiliary facts\<close>

lemma clearAnimals_frame [simp]:
  "feedbackType (clearAnimals st) = feedbackType st"
  "selectedAnimal (clearAnimals st) = selectedAnimal st"
  "isAnimating (clearAnimals st) = isAnimating st"
  "sounds (clearAnimals st) = sounds st"
  "currentRound (clearAnimals st) = currentRound st"
  "animals (clearAnimals st) = animals st"
  "navigated (clearAnimals st) = navigated st"
  "timers (clearAnimals st) = timers st"
  "now (clearAnimals st) = now st"
  "sceneReady (clearAnimals st) = sceneReady st"
  "console (clearAnimals st) = console st"
  "baseUrl (clearAnimals st) = baseUrl st"
  "usarVideo (clearAnimals st) = usarVideo st"
  "arLoading (clearAnimals st) = arLoading st"
  "isFadingIn (clearAnimals st) = isFadingIn st"
  "correctEntityPosRef (clearAnimals st) = correctEntityPosRef st"
  "keydownInstalled (clearAnimals st) = keydownInstalled st"
  "mediaStreamRef (clearAnimals st) = mediaStreamRef st"
  "videoOpacity (clearAnimals st) = videoOpacity st"
  "correctEntityIdRef (clearAnimals st) = None"
  by (simp_all add: clearAnimals_def Let_def split: option.splits)

lemma handleAnimalClick_feedback:
  "\<not> isAnimating st \<Longrightarrow>
     feedbackType (handleAnimalClick c k st) = Some (if c = k then success else error)
   \<and> selectedAnimal (handleAnimalClick c k st) = Some c
   \<and> sounds (handleAnimalClick c k st)
        = sounds st @ [ClickSound, if c = k then SuccessSound else ErrorSound]
   \<and> isAnimating (handleAnimalClick c k st)"
  by (simp add: handleAnimalClick_def Let_def setTimeout_def)

lemma at_index_ANIMALS: "r < 5 \<Longrightarrow> at_index ANIMALS (int r) = Some (ANIMALS ! r)"
  by (simp add: at_index_def ANIMALS_def)

lemma at_index_mem: "at_index xs i = Some x \<Longrightarrow> x \<in> set xs"
  by (auto simp: at_index_def split: if_splits)

lemma wrongAnimals_ANIMALS_nonempty:
  "r < 5 \<Longrightarrow> \<exists>oth. at_index (wrongAnimals ANIMALS (name (ANIMALS ! r))) 0 = Some oth"
  by (cases "r = 0"; cases "r = 1"; cases "r = 2"; cases "r = 3"; cases "r = 4")
     (simp_all add: at_index_def wrongAnimals_def ANIMALS_def)

lemma length_wrongAnimals_ANIMALS:
  "r < 5 \<Longrightarrow> length (wrongAnimals ANIMALS (name (ANIMALS ! r))) = 4"
  by (cases "r = 0"; cases "r = 1"; cases "r = 2"; cases "r = 3"; cases "r = 4")
     (simp_all add: wrongAnimals_def ANIMALS_def)

lemma randomWrongAnimal_ANIMALS:
  assumes "r < 5" "0 \<le> rnd" "rnd < 1"
  shows "\<exists>w. randomWrongAnimal ANIMALS (name (ANIMALS ! r)) rnd = Some w
             \<and> w \<in> set ANIMALS \<and> name w \<noteq> name (ANIMALS ! r)"
proof -
  let ?ws = "wrongAnimals ANIMALS (name (ANIMALS ! r))"
  have len: "length ?ws = 4" using assms(1) by (rule length_wrongAnimals_ANIMALS)
  have lo: "0 \<le> \<lfloor>rnd * 4\<rfloor>" using assms(2) by simp
  have "rnd * 4 < 4" using assms(3) by simp
  then have hi: "\<lfloor>rnd * 4\<rfloor> < 4" by (simp add: floor_less_iff)
  obtain w where w: "randomWrongAnimal ANIMALS (name (ANIMALS ! r)) rnd = Some w"
    using lo hi len by (simp add: randomWrongAnimal_def at_index_def)
  then have "w \<in> set ?ws" unfolding randomWrongAnimal_def by (rule at_index_mem)
  then have "w \<in> set ANIMALS \<and> name w \<noteq> name (ANIMALS ! r)"
    by (simp add: wrongAnimals_def)
  with w show ?thesis by blast
qed

lemma find_ANIMALS:
  "w \<in> set ANIMALS \<Longrightarrow> find (\<lambda>a. name a = name w) ANIMALS = Some w"
  unfolding ANIMALS_def by (elim set_ConsD [elim_format] disjE) simp_all

lemma nth_ANIMALS_mem: "r < 5 \<Longrightarrow> ANIMALS ! r \<in> set ANIMALS"
  by (rule nth_mem) (simp add: ANIMALS_def)

lemma clearAnimals_scene:
  "arSceneRef st = Some sc \<Longrightarrow>
     \<exists>sc'. arSceneRef (clearAnimals st) = Some sc' \<and> sceneEl sc' = sceneEl sc
          \<and> created sc' = created sc
          \<and> hasUpdateEntityPosition sc' = hasUpdateEntityPosition sc"
  by (auto simp: clearAnimals_def Let_def removeEntity_def split: option.splits)

lemma entityIdOf_inject [simp]: "entityIdOf m = entityIdOf n \<longleftrightarrow> m = n"
proof
  assume "entityIdOf m = entityIdOf n"
  then have "length (entityIdOf m) = length (entityIdOf n)" by simp
  then show "m = n" by (simp add: entityIdOf_def)
qed simp

lemma entityIdOf_nonempty [simp]: "entityIdOf n \<noteq> []"
  by (simp add: entityIdOf_def)

lemma spawnAnimals_found:
  assumes "sceneReady st" "arSceneRef (clearAnimals st) = Some sc" "sceneEl sc"
    and "arSceneRef st = Some sc0"
    and "find (\<lambda>a. name a = c) (animals st) = Some cc"
    and "find (\<lambda>a. name a = w) (animals st) = Some wc"
  shows "spawnAnimals c w rnd st =
     setTimeout
       (ConfigureEntities (entityIdOf (created sc)) (name (if rnd > 1 / 2 then cc else wc))
                          (entityIdOf (Suc (created sc))) (name (if rnd > 1 / 2 then wc else cc)))
       200
       ((clearAnimals st)
          \<lparr>arSceneRef := Some (sc\<lparr>entities := entities sc @
                [(entityIdOf (created sc),
                  animalEntity (baseUrl st) leftPos (if rnd > 1 / 2 then cc else wc)),
                 (entityIdOf (Suc (created sc)),
                  animalEntity (baseUrl st) rightPos (if rnd > 1 / 2 then wc else cc))],
                created := Suc (Suc (created sc))\<rparr>),
           animalEntities_left := Some (entityIdOf (created sc)),
           animalEntities_right := Some (entityIdOf (Suc (created sc))),
           correctEntityIdRef :=
             Some (if rnd > 1 / 2 then entityIdOf (created sc) else entityIdOf (Suc (created sc))),
           correctEntityPosRef := (if rnd > 1 / 2 then leftPos else rightPos)\<rparr>)"
  using assms by (simp add: spawnAnimals_def Let_def addEntity_def)

lemma setTimeout_frame [simp]:
  "animals (setTimeout task d st) = animals st"
  "navigated (setTimeout task d st) = navigated st"
  "currentRound (setTimeout task d st) = currentRound st"
  "selectedAnimal (setTimeout task d st) = selectedAnimal st"
  "feedbackType (setTimeout task d st) = feedbackType st"
  "isAnimating (setTimeout task d st) = isAnimating st"
  "now (setTimeout task d st) = now st"
  "arSceneRef (setTimeout task d st) = arSceneRef st"
  "animalEntities_left (setTimeout task d st) = animalEntities_left st"
  "animalEntities_right (setTimeout task d st) = animalEntities_right st"
  "correctEntityIdRef (setTimeout task d st) = correctEntityIdRef st"
  "sceneReady (setTimeout task d st) = sceneReady st"
  "arLoading (setTimeout task d st) = arLoading st"
  "console (setTimeout task d st) = console st"
  "timers (setTimeout task d st) = timers st @ [(now st + d, task)]"
  by (simp_all add: setTimeout_def)

lemma spawnAnimals_const:
  "animals (spawnAnimals c w rnd st) = animals st
   \<and> navigated (spawnAnimals c w rnd st) = navigated st
   \<and> currentRound (spawnAnimals c w rnd st) = currentRound st
   \<and> selectedAnimal (spawnAnimals c w rnd st) = selectedAnimal st
   \<and> feedbackType (spawnAnimals c w rnd st) = feedbackType st
   \<and> isAnimating (spawnAnimals c w rnd st) = isAnimating st
   \<and> sceneReady (spawnAnimals c w rnd st) = sceneReady st
   \<and> now (spawnAnimals c w rnd st) = now st"
  by (simp add: spawnAnimals_def Let_def split: option.splits)

lemma spawnRound_const:
  "animals (spawnRound r rw rs st) = animals st
   \<and> navigated (spawnRound r rw rs st) = navigated st
   \<and> currentRound (spawnRound r rw rs st) = currentRound st
   \<and> selectedAnimal (spawnRound r rw rs st) = selectedAnimal st
   \<and> feedbackType (spawnRound r rw rs st) = feedbackType st
   \<and> isAnimating (spawnRound r rw rs st) = isAnimating st
   \<and> sceneReady (spawnRound r rw rs st) = sceneReady st
   \<and> now (spawnRound r rw rs st) = now st"
  by (simp add: spawnRound_def spawnAnimals_const split: option.splits)

lemma handleAnimalClick_const:
  "animals (handleAnimalClick c k st) = animals st
   \<and> navigated (handleAnimalClick c k st) = navigated st
   \<and> currentRound (handleAnimalClick c k st) = currentRound st
   \<and> sceneReady (handleAnimalClick c k st) = sceneReady st
   \<and> now (handleAnimalClick c k st) = now st"
  by (simp add: handleAnimalClick_def Let_def)

lemma handleTouchStart_const:
  "animals (handleTouchStart env st) = animals st
   \<and> navigated (handleTouchStart env st) = navigated st
   \<and> currentRound (handleTouchStart env st) = currentRound st
   \<and> sceneReady (handleTouchStart env st) = sceneReady st
   \<and> now (handleTouchStart env st) = now st"
  by (simp add: handleTouchStart_def Let_def handleAnimalClick_const split: option.splits)

lemma desktopImageClick_const:
  "animals (desktopImageClick b st) = animals st
   \<and> navigated (desktopImageClick b st) = navigated st
   \<and> currentRound (desktopImageClick b st) = currentRound st
   \<and> sceneReady (desktopImageClick b st) = sceneReady st
   \<and> now (desktopImageClick b st) = now st"
  by (simp add: desktopImageClick_def handleDesktopAnimalClick_def handleAnimalClick_const
           split: option.splits)

lemma handler_const:
  "animals (handler key st) = animals st
   \<and> navigated (handler key st) = navigated st
   \<and> currentRound (handler key st) = currentRound st
   \<and> selectedAnimal (handler key st) = selectedAnimal st
   \<and> feedbackType (handler key st) = feedbackType st
   \<and> isAnimating (handler key st) = isAnimating st
   \<and> sceneReady (handler key st) = sceneReady st
   \<and> now (handler key st) = now st
   \<and> timers (handler key st) = timers st"
  by (simp add: handler_def Let_def split: option.splits)

lemma cameraEffect_const:
  "animals (cameraEffect env st) = animals st
   \<and> navigated (cameraEffect env st) = navigated st
   \<and> currentRound (cameraEffect env st) = currentRound st
   \<and> selectedAnimal (cameraEffect env st) = selectedAnimal st
   \<and> feedbackType (cameraEffect env st) = feedbackType st
   \<and> isAnimating (cameraEffect env st) = isAnimating st
   \<and> sceneReady (cameraEffect env st) = sceneReady st
   \<and> now (cameraEffect env st) = now st"
  by (simp add: cameraEffect_def setupCamera_def cameraCatch_def cameraReady_def Let_def
           split: Settled.splits)

lemma roundEffects_const:
  "animals (roundEffects st) = animals st
   \<and> navigated (roundEffects st) = navigated st
   \<and> currentRound (roundEffects st) = currentRound st
   \<and> selectedAnimal (roundEffects st) = selectedAnimal st
   \<and> feedbackType (roundEffects st) = feedbackType st
   \<and> isAnimating (roundEffects st) = isAnimating st
   \<and> sceneReady (roundEffects st) = sceneReady st
   \<and> now (roundEffects st) = now st"
  by (simp add: roundEffects_def Let_def)

lemma runTask_const:
  "animals (runTask task rw rs st) = animals st
   \<and> navigated (runTask task rw rs st) = navigated st
   \<and> sceneReady (runTask task rw rs st) = sceneReady st
   \<and> now (runTask task rw rs st) = now st"
  by (cases task)
     (simp_all add: fadeIn_def startRound_def spawnRound_const configureEntities_def
        roundEffects_const feedbackEndCallback_def Let_def TOTAL_ROUNDS_def)

lemma step_const:
  "step ev st = Some st' \<Longrightarrow> animals st' = animals st \<and> navigated st' = navigated st"
  by (cases ev)
     (auto simp: step_def cameraEffect_const onSceneReady_def roundEffects_const
        handleTouchStart_const desktopImageClick_const handler_const runTask_const
        split: if_splits option.splits)

lemma run_const:
  "run evs st = Some st' \<Longrightarrow> animals st' = animals st \<and> navigated st' = navigated st"
proof (induction evs arbitrary: st)
  case Nil
  then show ?case by simp
next
  case (Cons ev evs)
  then show ?case by (auto split: option.splits dest!: step_const)
qed

lemma handler_unfold:
  assumes "correctEntityIdRef st = Some ident" "ident \<noteq> []" "arSceneRef st = Some sc"
  shows "handler k st =
     (if handler_moved k
      then st\<lparr>correctEntityPosRef := handler_position k (correctEntityPosRef st),
              arSceneRef := map_option
                 (updateEntityPosition ident (handler_position k (correctEntityPosRef st)))
                 (arSceneRef st)\<rparr>
      else st)"
  unfolding handler_def handler_moved_def handler_position_def Let_def
  by (simp only: assms option.case option.distinct simp_thms if_False)


lemma runTask_round:
  "currentRound (runTask task rw rs st)
     = (if task = FeedbackEnd then currentRound st + 1 else currentRound st)"
  by (cases task)
     (simp_all add: fadeIn_def startRound_def spawnRound_const configureEntities_def
        roundEffects_const feedbackEndCallback_def Let_def TOTAL_ROUNDS_def)

lemma step_round_mono:
  "step ev st = Some st' \<Longrightarrow> currentRound st \<le> currentRound st'"
  by (cases ev)
     (auto simp: step_def cameraEffect_const onSceneReady_def roundEffects_const
        handleTouchStart_const desktopImageClick_const handler_const runTask_round
        split: if_splits option.splits)

lemma run_round_mono:
  "run evs st = Some st' \<Longrightarrow> currentRound st \<le> currentRound st'"
proof (induction evs arbitrary: st)
  case Nil
  then show ?case by simp
next
  case (Cons ev evs)
  then show ?case by (fastforce split: option.splits dest: step_round_mono)
qed


subsection \<open>The complete game\<close>

lemmas event_defs = step_def onSceneReady_def roundEffects_def cameraEffect_def setupCamera_def
  cameraCatch_def cameraReady_def handleTouchStart_def handleAnimalClick_def clearAnimals_def
  feedbackEndCallback_def spawnRound_def startRound_def spawnAnimals_def randomWrongAnimal_def
  wrongAnimals_def at_index_def setTimeout_def configureEntities_def setDataAnimal_def
  addEntity_def removeEntity_def entityIdOf_def animalEntity_def fadeIn_def truthy_def
  TOTAL_ROUNDS_def ANIMALS_def initial_def touchEntity_def Let_def normalizePath_def
  leftPos_def rightPos_def INITIAL_ANIMAL_Z_def

lemma run_append:
  "run (xs @ ys) st = (case run xs st of None \<Rightarrow> None | Some s \<Rightarrow> run ys s)"
  by (induction xs arbitrary: st) (simp_all split: option.splits)

lemma replicate_sounds:
  "concat (replicate 1 [ClickSound, SuccessSound]) = [ClickSound, SuccessSound]"
  "concat (replicate 2 [ClickSound, SuccessSound])
     = [ClickSound, SuccessSound, ClickSound, SuccessSound]"
  "concat (replicate 3 [ClickSound, SuccessSound])
     = [ClickSound, SuccessSound, ClickSound, SuccessSound, ClickSound, SuccessSound]"
  "concat (replicate 4 [ClickSound, SuccessSound])
     = [ClickSound, SuccessSound, ClickSound, SuccessSound, ClickSound, SuccessSound,
        ClickSound, SuccessSound]"
  "concat (replicate 5 [ClickSound, SuccessSound])
     = [ClickSound, SuccessSound, ClickSound, SuccessSound, ClickSound, SuccessSound,
        ClickSound, SuccessSound, ClickSound, SuccessSound]"
  by (simp_all add: eval_nat_numeral)

lemma game_round0: "run firstRound (initial True []) = Some (afterRound 1 2700)"
  by (simp add: firstRound_def afterRound_def event_defs)

lemma game_round1: "run (laterRound 1) (afterRound 1 2700) = Some (afterRound 2 5200)"
  by (simp add: laterRound_def afterRound_def event_defs replicate_sounds)

lemma game_round2: "run (laterRound 2) (afterRound 2 5200) = Some (afterRound 3 7700)"
  by (simp add: laterRound_def afterRound_def event_defs replicate_sounds)

lemma game_round3: "run (laterRound 3) (afterRound 3 7700) = Some (afterRound 4 10200)"
  by (simp add: laterRound_def afterRound_def event_defs replicate_sounds)

lemma game_round4: "run (laterRound 4) (afterRound 4 10200) = Some (afterRound 5 12700)"
  by (simp add: laterRound_def afterRound_def event_defs replicate_sounds)

lemma game_tail:
  "run [Fire 0 0, Fire 0 0] (afterRound 5 12700)
     = Some ((afterRound 5 12700)\<lparr>now := 13200, timers := []\<rparr>)"
  by (simp add: afterRound_def event_defs replicate_sounds)

lemma fullGame_run:
  "run fullGame (initial True []) = Some ((afterRound 5 12700)\<lparr>now := 13200, timers := []\<rparr>)"
  by (simp only: fullGame_def run_append game_round0 game_round1 game_round2 game_round3
        game_round4 game_tail option.case)

subsection \<open>Double-precision steps\<close>

lemma quantum_eq:
  assumes "2 powr of_int e \<le> \<bar>x\<bar>" and "\<bar>x\<bar> < 2 powr of_int (e + 1)" and "- 1022 \<le> e"
  shows "quantum x = 2 powr (of_int e - 52)"
proof -
  have "0 < 2 powr real_of_int e" by simp
  then have pos: "0 < \<bar>x\<bar>" using assms(1) by linarith
  have "\<lfloor>log 2 \<bar>x\<bar>\<rfloor> = e"
    using floor_log_eq_powr_iff [of "\<bar>x\<bar>" 2 e] pos assms(1,2) by simp
  then show ?thesis using assms(3) by (simp add: quantum_def max_def)
qed

lemma toDouble_eval:
  assumes "2 powr of_int e \<le> \<bar>x\<bar>" and "\<bar>x\<bar> < 2 powr of_int (e + 1)" and "- 1022 \<le> e"
    and "roundTiesToEven (x * 2 powr (52 - of_int e)) = n"
    and "\<bar>of_int n * 2 powr (of_int e - 52)\<bar> < (2 ^ 1024 :: real)"
  shows "toDouble x = Finite (of_int n * 2 powr (of_int e - 52))"
proof -
  have "0 < 2 powr real_of_int e" by simp
  then have nz: "x \<noteq> 0" using assms(1) by linarith
  have q: "quantum x = 2 powr (of_int e - 52)" by (rule quantum_eq [OF assms(1-3)])
  have "x / quantum x = x * 2 powr (- (of_int e - 52))"
    unfolding q by (simp only: powr_minus divide_inverse)
  then have d: "x / quantum x = x * 2 powr (52 - of_int e)" by simp
  have r0: "roundTiesToEven (x / quantum x) = n" unfolding d by (rule assms(4))
  have r: "of_int (roundTiesToEven (x / quantum x)) * quantum x
             = of_int n * 2 powr (of_int e - 52)"
    unfolding r0 unfolding q by (rule refl)
  show ?thesis
    unfolding toDouble_def r using nz assms(5) by (simp add: abs_less_iff)
qed

lemma MOVE_STEP_value: "MOVE_STEP = Finite (3602879701896397 / 2 ^ 54)"
  unfolding MOVE_STEP_def
  using toDouble_eval [of "- 3" "2 / 10" 7205759403792794]
  by (simp add: roundTiesToEven_def powr_minus)

lemma step_from_initial_z:
  "dsub (Finite (- 6)) MOVE_STEP = Finite (- (6980579422424269 / 2 ^ 50))"
  unfolding MOVE_STEP_value dsub_def
  using toDouble_eval [of 2 "- 6 - 3602879701896397 / 2 ^ 54" "- 6980579422424269"]
  by (simp add: roundTiesToEven_def powr_minus)

lemma step_difference:
  "dsub (Finite (- (6980579422424269 / 2 ^ 50))) (Finite (- 6)) = Finite (- (225179981368525 / 2 ^ 50))"
  unfolding dsub_def
  using toDouble_eval [of "- 3" "- (6980579422424269 / 2 ^ 50) + 6" "- 7205759403792800"]
  by (simp add: roundTiesToEven_def powr_minus)

lemma step_from_zero:
  "dadd (Finite 0) MOVE_STEP = Finite (3602879701896397 / 2 ^ 54)"
  unfolding MOVE_STEP_value
  using toDouble_eval [of "- 3" "3602879701896397 / 2 ^ 54" 7205759403792794]
  by (simp add: roundTiesToEven_def powr_minus)

subsection \<open>A selection made before the first round starts\<close>

lemma early_click_run:
  "\<exists>st. run earlyDesktopClick (initial False []) = Some st
     \<and> currentRound st = 1 \<and> now st = 2010
     \<and> map fst (sceneEntities st) = [''ar-entity-'', ''ar-entity-i'']
     \<and> map (data_animal \<circ> snd) (sceneEntities st) = [gato, cachorro]
     \<and> animalEntities_left st = Some ''ar-entity-''
     \<and> animalEntities_right st = Some ''ar-entity-i''
     \<and> sceneReady st \<and> \<not> usarVideo st \<and> animals st = ANIMALS
     \<and> keydownInstalled st \<and> arSceneRef st \<noteq> None
     \<and> correctEntityIdRef st = Some ''ar-entity-''
     \<and> correctEntityPosRef st = \<lparr>vx = Finite (- (3 / 2)), vy = Finite 0, vz = Finite (- 6)\<rparr>
     \<and> selectedAnimal st = None \<and> feedbackType st = None \<and> \<not> isAnimating st
     \<and> timers st = [(2110, SpawnNext 1), (2210, EnsureSceneVisible 1)]"
  by (simp add: earlyDesktopClick_def event_defs desktopImageClick_def desktopImagesShown_def
        handleDesktopAnimalClick_def sceneEntities_def)

lemma early_click_conj:
  "run earlyDesktopClick (initial False []) = Some afterEarlyClick \<and>
     currentRound afterEarlyClick = 1 \<and> now afterEarlyClick = 2010
     \<and> map fst (sceneEntities afterEarlyClick) = [''ar-entity-'', ''ar-entity-i'']
     \<and> map (data_animal \<circ> snd) (sceneEntities afterEarlyClick) = [gato, cachorro]
     \<and> animalEntities_left afterEarlyClick = Some ''ar-entity-''
     \<and> animalEntities_right afterEarlyClick = Some ''ar-entity-i''
     \<and> sceneReady afterEarlyClick \<and> \<not> usarVideo afterEarlyClick \<and> animals afterEarlyClick = ANIMALS
     \<and> keydownInstalled afterEarlyClick \<and> arSceneRef afterEarlyClick \<noteq> None
     \<and> correctEntityIdRef afterEarlyClick = Some ''ar-entity-''
     \<and> correctEntityPosRef afterEarlyClick = \<lparr>vx = Finite (- (3 / 2)), vy = Finite 0, vz = Finite (- 6)\<rparr>
     \<and> selectedAnimal afterEarlyClick = None \<and> feedbackType afterEarlyClick = None \<and> \<not> isAnimating afterEarlyClick
     \<and> timers afterEarlyClick = [(2110, SpawnNext 1), (2210, EnsureSceneVisible 1)]"
proof -
  from early_click_run obtain st where
    r: "run earlyDesktopClick (initial False []) = Some st"
    and rest: "currentRound st = 1 \<and> now st = 2010
     \<and> map fst (sceneEntities st) = [''ar-entity-'', ''ar-entity-i'']
     \<and> map (data_animal \<circ> snd) (sceneEntities st) = [gato, cachorro]
     \<and> animalEntities_left st = Some ''ar-entity-''
     \<and> animalEntities_right st = Some ''ar-entity-i''
     \<and> sceneReady st \<and> \<not> usarVideo st \<and> animals st = ANIMALS
     \<and> keydownInstalled st \<and> arSceneRef st \<noteq> None
     \<and> correctEntityIdRef st = Some ''ar-entity-''
     \<and> correctEntityPosRef st = \<lparr>vx = Finite (- (3 / 2)), vy = Finite 0, vz = Finite (- 6)\<rparr>
     \<and> selectedAnimal st = None \<and> feedbackType st = None \<and> \<not> isAnimating st
     \<and> timers st = [(2110, SpawnNext 1), (2210, EnsureSceneVisible 1)]"
    by (elim exE conjE) (rule that, assumption, intro conjI, assumption+)
  have e: "afterEarlyClick = st" unfolding afterEarlyClick_def r by (rule option.sel)
  from r rest show ?thesis unfolding e by (rule conjI)
qed

lemma early_click_state:
  "run earlyDesktopClick (initial False []) = Some afterEarlyClick"
  "currentRound afterEarlyClick = 1"
  "now afterEarlyClick = 2010"
  "map fst (sceneEntities afterEarlyClick) = [''ar-entity-'', ''ar-entity-i'']"
  "map (data_animal \<circ> snd) (sceneEntities afterEarlyClick) = [gato, cachorro]"
  "animalEntities_left afterEarlyClick = Some ''ar-entity-''"
  "animalEntities_right afterEarlyClick = Some ''ar-entity-i''"
  "sceneReady afterEarlyClick"
  "\<not> usarVideo afterEarlyClick"
  "animals afterEarlyClick = ANIMALS"
  "keydownInstalled afterEarlyClick"
  "arSceneRef afterEarlyClick \<noteq> None"
  "correctEntityIdRef afterEarlyClick = Some ''ar-entity-''"
  "correctEntityPosRef afterEarlyClick
     = \<lparr>vx = Finite (- (3 / 2)), vy = Finite 0, vz = Finite (- 6)\<rparr>"
  "selectedAnimal afterEarlyClick = None"
  "feedbackType afterEarlyClick = None"
  "\<not> isAnimating afterEarlyClick"
  "timers afterEarlyClick = [(2110, SpawnNext 1), (2210, EnsureSceneVisible 1)]"
  using early_click_conj by simp_all


subsection \<open>Feedback of a selection\<close>

text \<open>
  Claim C1.  A selection is made in a state whose round index \<open>r\<close> is below 5 and in
  which no feedback animation runs, through the touch listener (the ray meets an entity
  of the scene, whose attribute \<^verbatim>\<open>data-animal\<close> is the clicked animal) or through one of
  the two images of the desktop test mode.  The correct animal of the round is the name
  of the \<open>r\<close>-th entry of \<^verbatim>\<open>ANIMALS\<close>; the selection sets the success flag and plays the
  success sound after the click sound exactly when the clicked animal is that name, and
  sets the error flag and plays the error sound exactly when it is not.
\<close>

theorem selection_feedback_by_round:
  assumes "currentRound st < TOTAL_ROUNDS" and "\<not> isAnimating st" and "animals st = ANIMALS"
    and "(st' = handleTouchStart env st \<and> touch0 env \<and> hasTHREE env \<and> hasCameraObj env
            \<and> closest env = Some i \<and> arSceneRef st = Some sc
            \<and> map_of (entities sc) i = Some el \<and> clicked = data_animal el)
       \<or> (st' = desktopImageClick True st \<and> clicked = name (ANIMALS ! currentRound st))
       \<or> (st' = desktopImageClick False st
            \<and> at_index (wrongAnimals ANIMALS (name (ANIMALS ! currentRound st))) 0 = Some oth
            \<and> clicked = name oth)"
  shows "map_option name (currentAnimal st) = Some (name (ANIMALS ! currentRound st))
       \<and> ((feedbackType st' = Some success \<and> sounds st' = sounds st @ [ClickSound, SuccessSound])
            \<longleftrightarrow> clicked = name (ANIMALS ! currentRound st))
       \<and> ((feedbackType st' = Some error \<and> sounds st' = sounds st @ [ClickSound, ErrorSound])
            \<longleftrightarrow> clicked \<noteq> name (ANIMALS ! currentRound st))
       \<and> selectedAnimal st' = Some clicked"
proof -
  let ?r = "currentRound st"
  let ?k = "name (ANIMALS ! ?r)"
  have r5: "?r < 5" using assms(1) by (simp add: TOTAL_ROUNDS_def)
  have idx: "at_index (animals st) (int ?r) = Some (ANIMALS ! ?r)"
    using r5 assms(3) by (simp add: at_index_ANIMALS)
  have cur: "currentAnimal st = Some (ANIMALS ! ?r)"
    using idx assms(1) by (simp add: currentAnimal_def)
  have modr: "?r mod length (animals st) = ?r"
    using r5 assms(3) by (simp add: ANIMALS_def)
  have len: "length (animals st) \<noteq> 0" using assms(3) by (simp add: ANIMALS_def)
  have st': "st' = handleAnimalClick clicked ?k st"
    using assms(4)
  proof (elim disjE conjE)
    assume "st' = handleTouchStart env st" "touch0 env" "hasTHREE env" "hasCameraObj env"
      "closest env = Some i" "arSceneRef st = Some sc" "map_of (entities sc) i = Some el"
      "clicked = data_animal el"
    then show ?thesis
      using assms(1,2) idx by (simp add: handleTouchStart_def Let_def)
  next
    assume "st' = desktopImageClick True st" "clicked = ?k"
    moreover obtain oth' where "at_index (wrongAnimals ANIMALS ?k) 0 = Some oth'"
      using wrongAnimals_ANIMALS_nonempty [OF r5] by blast
    ultimately show ?thesis
      using idx modr len assms(3)
      by (simp add: desktopImageClick_def handleDesktopAnimalClick_def)
  next
    assume "st' = desktopImageClick False st"
      "at_index (wrongAnimals ANIMALS ?k) 0 = Some oth" "clicked = name oth"
    then show ?thesis
      using idx modr len assms(3)
      by (simp add: desktopImageClick_def handleDesktopAnimalClick_def)
  qed
  show ?thesis
    using handleAnimalClick_feedback [OF assms(2), of clicked ?k] cur st'
    by auto
qed

theorem selection_feedback_by_round_witness:
  "feedbackType (desktopImageClick True ((initial False [])\<lparr>sceneReady := True\<rparr>)) = Some success
   \<and> feedbackType (desktopImageClick False ((initial False [])\<lparr>sceneReady := True\<rparr>)) = Some error"
proof -
  let ?st = "(initial False [])\<lparr>sceneReady := True\<rparr>"
  have a: "currentRound ?st < TOTAL_ROUNDS" "\<not> isAnimating ?st" "animals ?st = ANIMALS"
    by (simp_all add: initial_def TOTAL_ROUNDS_def)
  have r0: "currentRound ?st = 0" by (simp add: initial_def)
  have w: "at_index (wrongAnimals ANIMALS (name (ANIMALS ! currentRound ?st))) 0 = Some (ANIMALS ! 1)"
    by (simp add: r0 at_index_def wrongAnimals_def ANIMALS_def)
  have n0: "name (ANIMALS ! currentRound ?st) = gato" "name (ANIMALS ! 1) = cachorro"
    by (simp_all add: r0 ANIMALS_def)
  from selection_feedback_by_round
         [OF a, where st' = "desktopImageClick True ?st"
            and clicked = "name (ANIMALS ! currentRound ?st)"]
  have 1: "feedbackType (desktopImageClick True ?st) = Some success" by simp
  from selection_feedback_by_round
         [OF a, where st' = "desktopImageClick False ?st"
            and clicked = "name (ANIMALS ! 1)" and oth = "ANIMALS ! 1"] w n0
  have 2: "feedbackType (desktopImageClick False ?st) = Some error" by simp
  show ?thesis using 1 2 by simp
qed

subsection \<open>The entities of a round\<close>

text \<open>
  Claim C2.  A round is spawned by \<^verbatim>\<open>startRound\<close> for a round index below 5, with the
  scene ready and its element present, and with the \<^verbatim>\<open>Math.random()\<close> value of the
  wrong animal in the interval from 0 to 1.  After the entities of the previous round
  are cleared, exactly two entities are appended to the scene.  One displays the
  correct animal of the round: its attribute \<^verbatim>\<open>data-animal\<close> is the name of the entry of
  \<^verbatim>\<open>ANIMALS\<close> at the round index and its material is the AR image of that entry.  The
  other displays in the same way a wrong animal, the entry of \<^verbatim>\<open>ANIMALS\<close> that the
  random value picks among those with another name.  The second random value decides
  which slot is correct (left when it exceeds 0.5), and the correct-entity reference
  names that slot.  For either choice the left entity is at \<open>(-1.5, 0, -6)\<close> and the
  right entity at \<open>(1.5, 0, -6)\<close>, both with the plane geometry and the interactive
  class.
\<close>

theorem round_spawn_two_entities:
  assumes "roundIndex < TOTAL_ROUNDS" and "animals st = ANIMALS"
    and "sceneReady st" and "arSceneRef st = Some sc0" and "sceneEl sc0"
    and "0 \<le> rndWrong" and "rndWrong < 1"
  shows "\<exists>wrong l r eL eR.
           wrong \<in> set ANIMALS \<and> name wrong \<noteq> name (ANIMALS ! roundIndex) \<and> l \<noteq> r
         \<and> at_index (wrongAnimals ANIMALS (name (ANIMALS ! roundIndex))) \<lfloor>rndWrong * 4\<rfloor>
             = Some wrong
         \<and> sceneEntities (startRound roundIndex rndWrong rndSide st)
             = sceneEntities (clearAnimals st) @ [(l, eL), (r, eR)]
         \<and> data_animal eL = name (if rndSide > 1 / 2 then ANIMALS ! roundIndex else wrong)
         \<and> data_animal eR = name (if rndSide > 1 / 2 then wrong else ANIMALS ! roundIndex)
         \<and> material eL
             = ''src: '' @ normalizePath (baseUrl st)
                 (''assets/images/'' @ arImage (if rndSide > 1 / 2 then ANIMALS ! roundIndex else wrong))
               @ ''; transparent: true; side: double''
         \<and> material eR
             = ''src: '' @ normalizePath (baseUrl st)
                 (''assets/images/'' @ arImage (if rndSide > 1 / 2 then wrong else ANIMALS ! roundIndex))
               @ ''; transparent: true; side: double''
         \<and> position_attr eL = \<lparr>vx = Finite (- (3 / 2)), vy = Finite 0, vz = Finite (- 6)\<rparr>
         \<and> position_attr eR = \<lparr>vx = Finite (3 / 2), vy = Finite 0, vz = Finite (- 6)\<rparr>
         \<and> geometry eL = ''primitive: plane'' \<and> geometry eR = ''primitive: plane''
         \<and> class_attr eL = ''clickable-animal'' \<and> class_attr eR = ''clickable-animal''
         \<and> animalEntities_left (startRound roundIndex rndWrong rndSide st) = Some l
         \<and> animalEntities_right (startRound roundIndex rndWrong rndSide st) = Some r
         \<and> correctEntityIdRef (startRound roundIndex rndWrong rndSide st)
             = Some (if rndSide > 1 / 2 then l else r)"
proof -
  have r5: "roundIndex < 5" using assms(1) by (simp add: TOTAL_ROUNDS_def)
  obtain w where w: "randomWrongAnimal ANIMALS (name (ANIMALS ! roundIndex)) rndWrong = Some w"
      "w \<in> set ANIMALS" "name w \<noteq> name (ANIMALS ! roundIndex)"
    using randomWrongAnimal_ANIMALS [OF r5 assms(6,7)] by blast
  obtain sc where sc: "arSceneRef (clearAnimals st) = Some sc" "sceneEl sc"
    using clearAnimals_scene [OF assms(4)] assms(5) by auto
  have fc: "find (\<lambda>a. name a = name (ANIMALS ! roundIndex)) (animals st) = Some (ANIMALS ! roundIndex)"
    using find_ANIMALS [OF nth_ANIMALS_mem [OF r5]] assms(2) by simp
  have fw: "find (\<lambda>a. name a = name w) (animals st) = Some w"
    using find_ANIMALS [OF w(2)] assms(2) by simp
  have start: "startRound roundIndex rndWrong rndSide st
                 = spawnAnimals (name (ANIMALS ! roundIndex)) (name w) rndSide st"
    using assms(1,2) r5 w(1) by (simp add: startRound_def spawnRound_def at_index_ANIMALS)
  have ents: "sceneEntities (clearAnimals st) = entities sc"
    using sc(1) by (simp add: sceneEntities_def)
  have wi: "at_index (wrongAnimals ANIMALS (name (ANIMALS ! roundIndex))) \<lfloor>rndWrong * 4\<rfloor> = Some w"
    using w(1) length_wrongAnimals_ANIMALS [OF r5] by (simp add: randomWrongAnimal_def)
  show ?thesis
    apply (rule exI [of _ w])
    apply (rule exI [of _ "entityIdOf (created sc)"])
    apply (rule exI [of _ "entityIdOf (Suc (created sc))"])
    apply (rule exI [of _ "animalEntity (baseUrl st) leftPos
                             (if rndSide > 1 / 2 then ANIMALS ! roundIndex else w)"])
    apply (rule exI [of _ "animalEntity (baseUrl st) rightPos
                             (if rndSide > 1 / 2 then w else ANIMALS ! roundIndex)"])
    using w(2,3) ents wi
    by (simp add: start spawnAnimals_found [OF assms(3) sc assms(4) fc fw] setTimeout_def
          sceneEntities_def animalEntity_def leftPos_def rightPos_def INITIAL_ANIMAL_Z_def)
qed

theorem round_spawn_two_entities_witness:
  "map (\<lambda>p. (data_animal (snd p), material (snd p)))
       (sceneEntities (startRound 0 0 (7 / 10) ((initial True [])\<lparr>sceneReady := True\<rparr>)))
     = [(gato, ''src: /assets/images/Gato.png; transparent: true; side: double''),
        (cachorro, ''src: /assets/images/Cachorro.png; transparent: true; side: double'')]
   \<and> length (sceneEntities (startRound 4 (9 / 10) (3 / 10) ((initial True [])\<lparr>sceneReady := True\<rparr>))) = 2"
proof -
  let ?st = "(initial True [])\<lparr>sceneReady := True\<rparr>"
  let ?sc = "\<lparr>sceneEl = True, entities = [], created = 0, hasUpdateEntityPosition = False\<rparr>"
  have h: "animals ?st = ANIMALS" "sceneReady ?st" "arSceneRef ?st = Some ?sc" "sceneEl ?sc"
    by (simp_all add: initial_def)
  have e: "sceneEntities (clearAnimals ?st) = []"
    by (simp add: sceneEntities_def clearAnimals_def initial_def)
  have t: "(0::nat) < TOTAL_ROUNDS" "(4::nat) < TOTAL_ROUNDS" by (simp_all add: TOTAL_ROUNDS_def)
  have z: "(0::real) \<le> 0" "(0::real) < 1" "(0::real) \<le> 9 / 10" "(9 / 10 :: real) < 1" by simp_all
  have b: "baseUrl ?st = []" by (simp add: initial_def)
  have w0: "at_index (wrongAnimals ANIMALS (name (ANIMALS ! 0))) \<lfloor>(0::real) * 4\<rfloor> = Some w
             \<longleftrightarrow> w = ANIMALS ! 1" for w
    by (auto simp: wrongAnimals_def at_index_def ANIMALS_def)
  obtain wrong l r eL eR where
    A: "sceneEntities (startRound 0 0 (7 / 10) ?st) = [(l, eL), (r, eR)]"
      "wrong = ANIMALS ! 1"
      "data_animal eL = name (ANIMALS ! 0)" "data_animal eR = name wrong"
      "material eL = ''src: '' @ normalizePath [] (''assets/images/'' @ arImage (ANIMALS ! 0))
                       @ ''; transparent: true; side: double''"
      "material eR = ''src: '' @ normalizePath [] (''assets/images/'' @ arImage wrong)
                       @ ''; transparent: true; side: double''"
    using round_spawn_two_entities [OF t(1) h z(1,2), of "7 / 10"] e b w0 by auto
  then have 1: "map (\<lambda>p. (data_animal (snd p), material (snd p)))
       (sceneEntities (startRound 0 0 (7 / 10) ?st))
     = [(gato, ''src: /assets/images/Gato.png; transparent: true; side: double''),
        (cachorro, ''src: /assets/images/Cachorro.png; transparent: true; side: double'')]"
    by (simp add: ANIMALS_def normalizePath_def)
  have 2: "length (sceneEntities (startRound 4 (9 / 10) (3 / 10) ?st)) = 2"
    using round_spawn_two_entities [OF t(2) h z(3,4), of "3 / 10"] e by auto
  from 1 2 show ?thesis by simp
qed


subsection \<open>The navigation callback\<close>

text \<open>
  Claim C4 says that the screen invokes the navigation callback, with the result
  screen as destination, once the round index reaches 5.  The component binds the prop
  \<^verbatim>\<open>onNavigate\<close> to the name \<^verbatim>\<open>_onNavigate\<close> and never calls it.  In the complete game
  the index reaches 5, no timeout remains pending, and the list of the calls of the
  callback is empty.
\<close>

theorem complete_game_never_navigates:
  "map_option currentRound (run fullGame (initial True [])) = Some 5
   \<and> map_option timers (run fullGame (initial True [])) = Some []
   \<and> map_option navigated (run fullGame (initial True [])) = Some []"
  by (simp add: fullGame_run afterRound_def)

text \<open>
  Claim C4, amended.  No handler, effect or timeout of the screen invokes the
  navigation callback: along every run of the screen the list of its calls stays what
  it was.  The round index never decreases along a run, so once it has reached 5 it
  stays at 5 or above, and there the screen has no current animal and shows no top
  image.
\<close>

theorem navigation_callback_never_invoked:
  assumes "run evs st = Some st'"
  shows "navigated st' = navigated st
       \<and> currentRound st \<le> currentRound st'
       \<and> (TOTAL_ROUNDS \<le> currentRound st \<longrightarrow>
            TOTAL_ROUNDS \<le> currentRound st'
            \<and> currentAnimal st' = None \<and> topImageSrc st' = [] \<and> \<not> topImageShown st')"
  using run_const [OF assms] run_round_mono [OF assms]
  by (simp add: currentAnimal_def topImageSrc_def topImageShown_def)

theorem navigation_callback_never_invoked_witness:
  "navigated ((afterRound 5 12700)\<lparr>now := 13200, timers := []\<rparr>) = navigated (initial True [])
   \<and> currentRound (initial True []) \<le> currentRound ((afterRound 5 12700)\<lparr>now := 13200, timers := []\<rparr>)
   \<and> TOTAL_ROUNDS \<le> currentRound (afterRound 5 12700)
   \<and> currentAnimal ((afterRound 5 12700)\<lparr>now := 13200, timers := []\<rparr>) = None"
proof -
  have 1: "navigated ((afterRound 5 12700)\<lparr>now := 13200, timers := []\<rparr>) = navigated (initial True [])
    \<and> currentRound (initial True []) \<le> currentRound ((afterRound 5 12700)\<lparr>now := 13200, timers := []\<rparr>)"
    using navigation_callback_never_invoked [OF fullGame_run] by simp
  have 2: "TOTAL_ROUNDS \<le> currentRound (afterRound 5 12700)"
    by (simp add: afterRound_def TOTAL_ROUNDS_def)
  have "currentAnimal ((afterRound 5 12700)\<lparr>now := 13200, timers := []\<rparr>) = None"
    using navigation_callback_never_invoked [OF game_tail] 2 by simp
  with 1 2 show ?thesis by simp
qed


subsection \<open>Clearing the entities\<close>











lemma map_fst_setDataAnimal [simp]:
  "map fst (entities (setDataAnimal i a sc)) = map fst (entities sc)"
  by (simp add: setDataAnimal_def comp_def)

lemma map_fst_updateEntityPosition [simp]:
  "map fst (entities (updateEntityPosition i v sc)) = map fst (entities sc)"
  by (simp add: updateEntityPosition_def comp_def)














subsection \<open>The animal list\<close>

text \<open>
  Claim C7.  The list \<^verbatim>\<open>ANIMALS\<close> has five entries, each a name, a top image and an
  AR image.  The screen starts with it, and spawning, the handling of a selection, the
  start of a round and every timeout callback, round advancement included, leave the
  array as it is; so does every run of the screen, hence every state the screen
  reaches holds the initial list.  The wrong-animal candidates are the result of a
  filter, whose elements are entries of the array with another name.
\<close>

theorem ANIMALS_never_mutated:
  "length ANIMALS = 5
   \<and> animals (initial video base) = ANIMALS
   \<and> animals (spawnAnimals c w rnd st) = animals st
   \<and> animals (startRound r rndWrong rndSide st) = animals st
   \<and> animals (handleAnimalClick clicked correct st) = animals st
   \<and> animals (runTask task rndWrong rndSide st) = animals st
   \<and> (\<forall>evs st'. run evs st = Some st' \<longrightarrow> animals st' = animals st)
   \<and> (\<forall>evs st'. run evs (initial video base) = Some st' \<longrightarrow> animals st' = ANIMALS)
   \<and> (\<forall>a \<in> set (wrongAnimals (animals st) k). a \<in> set (animals st) \<and> name a \<noteq> k)"
proof -
  have 1: "length ANIMALS = 5" by (simp add: ANIMALS_def)
  have 2: "animals (initial video base) = ANIMALS" by (simp add: initial_def)
  have 3: "animals (spawnAnimals c w rnd st) = animals st" by (simp add: spawnAnimals_const)
  have 4: "animals (startRound r rndWrong rndSide st) = animals st"
    by (simp add: startRound_def spawnRound_const)
  have 5: "animals (handleAnimalClick clicked correct st) = animals st"
    by (simp add: handleAnimalClick_const)
  have 6: "animals (runTask task rndWrong rndSide st) = animals st" by (simp add: runTask_const)
  have 7: "\<forall>evs st'. run evs st = Some st' \<longrightarrow> animals st' = animals st"
    using run_const by blast
  have 8: "\<forall>evs st'. run evs (initial video base) = Some st' \<longrightarrow> animals st' = ANIMALS"
    using run_const 2 by fastforce
  have 9: "\<forall>a \<in> set (wrongAnimals (animals st) k). a \<in> set (animals st) \<and> name a \<noteq> k"
    by (simp add: wrongAnimals_def)
  from 1 2 3 4 5 6 7 8 9 show ?thesis by blast
qed

theorem ANIMALS_never_mutated_witness:
  "animals ((afterRound 5 12700)\<lparr>now := 13200, timers := []\<rparr>) = ANIMALS
   \<and> name (hd (wrongAnimals ANIMALS gato)) = cachorro"
proof -
  have "animals ((afterRound 5 12700)\<lparr>now := 13200, timers := []\<rparr>) = ANIMALS"
    using ANIMALS_never_mutated [of True "[]"] fullGame_run by blast
  then show ?thesis by (simp add: wrongAnimals_def ANIMALS_def)
qed

subsection \<open>Failure of the camera\<close>

lemma spawnAnimals_loading:
  "arLoading (spawnAnimals c w rnd st) = arLoading st
   \<and> isFadingIn (spawnAnimals c w rnd st) = isFadingIn st"
  by (simp add: spawnAnimals_def Let_def setTimeout_def split: option.splits)

lemma runTask_loading:
  "arLoading (runTask task rw rs st) = arLoading st
   \<and> (isFadingIn st \<longrightarrow> isFadingIn (runTask task rw rs st))"
  by (cases task)
     (simp_all add: fadeIn_def startRound_def spawnRound_def spawnAnimals_loading
        configureEntities_def roundEffects_def feedbackEndCallback_def Let_def setTimeout_def
        split: option.splits)

lemma step_loading:
  "step ev st = Some st' \<Longrightarrow>
     (arLoading st' \<longrightarrow> arLoading st) \<and> (isFadingIn st \<longrightarrow> isFadingIn st')"
  by (cases ev)
     (auto simp: step_def cameraEffect_def setupCamera_def cameraCatch_def cameraReady_def
        onSceneReady_def roundEffects_def handleTouchStart_def desktopImageClick_def
        handleDesktopAnimalClick_def handleAnimalClick_def handler_def runTask_loading
        Let_def setTimeout_def
        split: if_splits option.splits Settled.splits)

lemma run_loading:
  "run evs st = Some st' \<Longrightarrow>
     (arLoading st' \<longrightarrow> arLoading st) \<and> (isFadingIn st \<longrightarrow> isFadingIn st')"
proof (induction evs arbitrary: st)
  case Nil
  then show ?case by simp
next
  case (Cons ev evs)
  then show ?case by (auto split: option.splits dest!: step_loading)
qed

text \<open>
  Claim C8.  With the camera in use, \<^verbatim>\<open>getUserMedia\<close> throws or rejects, or it
  resolves and \<^verbatim>\<open>video.play()\<close> rejects.  In both cases the error is caught and one
  entry is written to the console, the loading flag is cleared, and the fade-in is
  scheduled 100 ms later, whose callback sets the fade-in flag.  The round state (round
  index, scene readiness, animation flag, scene handle) is untouched, so the game goes
  on, and the loading flag is not set again in any run that follows.
\<close>

theorem camera_failure_continues:
  assumes "usarVideo st"
    and "getUserMedia env = Rejected err
         \<or> (getUserMedia env = Resolved \<and> videoPlay env = Rejected err)"
  shows "\<not> arLoading (cameraEffect env st)
       \<and> (\<exists>entry. console (cameraEffect env st) = console st @ [entry])
       \<and> timers (cameraEffect env st)
           = timers st @ [(now st + 100, FadeIn (getUserMedia env = Resolved))]
       \<and> isFadingIn (runTask (FadeIn (getUserMedia env = Resolved)) rndWrong rndSide s)
       \<and> currentRound (cameraEffect env st) = currentRound st
       \<and> sceneReady (cameraEffect env st) = sceneReady st
       \<and> isAnimating (cameraEffect env st) = isAnimating st
       \<and> arSceneRef (cameraEffect env st) = arSceneRef st
       \<and> (\<forall>evs st'. run evs (cameraEffect env st) = Some st' \<longrightarrow> \<not> arLoading st')"
proof -
  have a: "\<not> arLoading (cameraEffect env st)"
    using assms
    by (auto simp: cameraEffect_def setupCamera_def cameraCatch_def cameraReady_def
          setTimeout_def Let_def)
  have b: "\<forall>evs st'. run evs (cameraEffect env st) = Some st' \<longrightarrow> \<not> arLoading st'"
    using a run_loading by blast
  have c: "(\<exists>entry. console (cameraEffect env st) = console st @ [entry])
       \<and> timers (cameraEffect env st)
           = timers st @ [(now st + 100, FadeIn (getUserMedia env = Resolved))]
       \<and> currentRound (cameraEffect env st) = currentRound st
       \<and> sceneReady (cameraEffect env st) = sceneReady st
       \<and> isAnimating (cameraEffect env st) = isAnimating st
       \<and> arSceneRef (cameraEffect env st) = arSceneRef st"
    using assms
    by (auto simp: cameraEffect_def setupCamera_def cameraCatch_def cameraReady_def
          setTimeout_def Let_def)
  have d: "isFadingIn (runTask (FadeIn (getUserMedia env = Resolved)) rndWrong rndSide s)"
    by (simp add: fadeIn_def)
  from a b c d show ?thesis by blast
qed

theorem camera_failure_continues_witness:
  "\<not> arLoading (cameraEffect \<lparr>getUserMedia = Rejected (Some ''NotAllowedError''),
                                 videoPlay = Pending\<rparr> (initial True []))
   \<and> timers (cameraEffect \<lparr>getUserMedia = Resolved, videoPlay = Rejected (Some ''AbortError'')\<rparr>
                          (initial True []))
       = [(100, FadeIn True)]"
proof -
  have u: "usarVideo (initial True [])" by (simp add: initial_def)
  have 1: "\<not> arLoading (cameraEffect \<lparr>getUserMedia = Rejected (Some ''NotAllowedError''),
                                       videoPlay = Pending\<rparr> (initial True []))"
    using camera_failure_continues [OF u, where err = "Some ''NotAllowedError''"
        and env = "\<lparr>getUserMedia = Rejected (Some ''NotAllowedError''), videoPlay = Pending\<rparr>"]
    by simp
  have 2: "timers (cameraEffect \<lparr>getUserMedia = Resolved,
                                  videoPlay = Rejected (Some ''AbortError'')\<rparr> (initial True []))
             = [(100, FadeIn True)]"
    using camera_failure_continues [OF u, where err = "Some ''AbortError''"
        and env = "\<lparr>getUserMedia = Resolved, videoPlay = Rejected (Some ''AbortError'')\<rparr>"]
    by (simp add: initial_def)
  from 1 2 show ?thesis by simp
qed
subsection \<open>The overlay circles\<close>




subsection \<open>The desktop movement keys\<close>

lemma of_char_eq_nat: "(of_char k :: nat) = of_char c \<longleftrightarrow> k = c"
  by (rule of_char_eq_iff)

lemma lowerChar_of_char:
  "(of_char (lowerChar k) :: nat)
     = (if 65 \<le> (of_char k :: nat) \<and> (of_char k :: nat) \<le> 90 then of_char k + 32 else of_char k)"
proof -
  have "(of_char k :: nat) < 256" by simp
  then show ?thesis by (simp add: lowerChar_def)
qed

lemma lowerChar_eq_letter:
  assumes "(of_char c :: nat) = of_char C + 32" and "65 \<le> (of_char C :: nat)"
    and "(of_char C :: nat) \<le> 90"
  shows "lowerChar k = c \<longleftrightarrow> k = c \<or> k = C"
proof -
  have "lowerChar k = c \<longleftrightarrow> (of_char (lowerChar k) :: nat) = of_char c"
    by (simp only: of_char_eq_nat)
  also have "\<dots> \<longleftrightarrow> (of_char k :: nat) = of_char c \<or> (of_char k :: nat) = of_char C"
    unfolding lowerChar_of_char using assms by (auto split: if_splits)
  also have "\<dots> \<longleftrightarrow> k = c \<or> k = C"
    by (simp only: of_char_eq_nat)
  finally show ?thesis .
qed

lemma toLowerCase_letter:
  assumes "(of_char c :: nat) = of_char C + 32" and "65 \<le> (of_char C :: nat)"
    and "(of_char C :: nat) \<le> 90"
  shows "toLowerCase key = [c] \<longleftrightarrow> key = [c] \<or> key = [C]"
proof (cases key)
  case Nil
  then show ?thesis by (simp add: toLowerCase_def)
next
  case (Cons k ks)
  then show ?thesis
    using lowerChar_eq_letter [OF assms, of k] by (auto simp: toLowerCase_def)
qed

lemma toLowerCase_wasd:
  "toLowerCase key = ''w'' \<longleftrightarrow> key = ''w'' \<or> key = ''W''"
  "toLowerCase key = ''s'' \<longleftrightarrow> key = ''s'' \<or> key = ''S''"
  "toLowerCase key = ''a'' \<longleftrightarrow> key = ''a'' \<or> key = ''A''"
  "toLowerCase key = ''d'' \<longleftrightarrow> key = ''d'' \<or> key = ''D''"
  by (rule toLowerCase_letter; simp)+

lemma handler_moved_keys:
  "handler_moved ''w''" "handler_moved ''W''" "handler_moved ''s''" "handler_moved ''S''"
  "handler_moved ''a''" "handler_moved ''A''" "handler_moved ''d''" "handler_moved ''D''"
  "handler_moved ''ArrowUp''" "handler_moved ''ArrowDown''"
  by (simp_all add: handler_moved_def toLowerCase_wasd)

lemma handler_moved_other:
  "k \<notin> {''w'', ''W'', ''s'', ''S'', ''a'', ''A'', ''d'', ''D'', ''ArrowUp'', ''ArrowDown''}
     \<Longrightarrow> \<not> handler_moved k"
  by (simp add: handler_moved_def toLowerCase_wasd)

lemma handler_position_keys:
  "handler_position ''w'' p = p\<lparr>vz := dsub (vz p) MOVE_STEP\<rparr>"
  "handler_position ''W'' p = p\<lparr>vz := dsub (vz p) MOVE_STEP\<rparr>"
  "handler_position ''s'' p = p\<lparr>vz := dadd (vz p) MOVE_STEP\<rparr>"
  "handler_position ''S'' p = p\<lparr>vz := dadd (vz p) MOVE_STEP\<rparr>"
  "handler_position ''a'' p = p\<lparr>vx := dsub (vx p) MOVE_STEP\<rparr>"
  "handler_position ''A'' p = p\<lparr>vx := dsub (vx p) MOVE_STEP\<rparr>"
  "handler_position ''d'' p = p\<lparr>vx := dadd (vx p) MOVE_STEP\<rparr>"
  "handler_position ''D'' p = p\<lparr>vx := dadd (vx p) MOVE_STEP\<rparr>"
  "handler_position ''ArrowUp'' p = p\<lparr>vy := dadd (vy p) MOVE_STEP\<rparr>"
  "handler_position ''ArrowDown'' p = p\<lparr>vy := dsub (vy p) MOVE_STEP\<rparr>"
  by (simp_all add: handler_position_def toLowerCase_wasd)

text \<open>
  Claim C10 says that a recognized key press changes one coordinate of the stored position
  of the correct entity by exactly 0.2.  The coordinates are doubles and \<^verbatim>\<open>MOVE_STEP\<close> is
  the double nearest to 0.2, which is 3602879701896397 / 2^54.  In the desktop test mode,
  after a click on the image of the current animal 10 ms after the scene is ready, the
  handler is installed and the correct entity is the left one, at \<open>z = -6\<close>.  A press of
  \<open>w\<close> then stores \<open>z = -6980579422424269 / 2^50\<close>, the double nearest to
  \<open>-6 - MOVE_STEP\<close>: the coordinate has changed by \<open>-225179981368525 / 2^50\<close>, that is
  by -0.20000000000000018, which is neither the negation of \<^verbatim>\<open>MOVE_STEP\<close> nor -0.2.
\<close>

theorem keydown_step_not_exact:
  "map_option correctEntityPosRef (run earlyDesktopClick (initial False []))
     = Some \<lparr>vx = Finite (- (3 / 2)), vy = Finite 0, vz = Finite (- 6)\<rparr>
   \<and> map_option correctEntityPosRef
         (run (earlyDesktopClick @ [KeyDown ''w'']) (initial False []))
     = Some \<lparr>vx = Finite (- (3 / 2)), vy = Finite 0,
             vz = Finite (- (6980579422424269 / 2 ^ 50))\<rparr>
   \<and> MOVE_STEP = Finite (3602879701896397 / 2 ^ 54)
   \<and> dsub (Finite (- (6980579422424269 / 2 ^ 50))) (Finite (- 6))
     = Finite (- (225179981368525 / 2 ^ 50))
   \<and> Finite (- (225179981368525 / 2 ^ 50)) \<noteq> dneg MOVE_STEP
   \<and> (- (6980579422424269 / 2 ^ 50) :: real) - (- 6) \<noteq> - (2 / 10)"
proof -
  note run = early_click_state(1) and inst = early_click_state(11)
    and ident = early_click_state(13) and pos = early_click_state(14)
  from early_click_state(12) obtain s where s: "arSceneRef afterEarlyClick = Some s" by auto
  have h: "correctEntityPosRef (handler ''w'' afterEarlyClick)
             = \<lparr>vx = Finite (- (3 / 2)), vy = Finite 0,
                vz = Finite (- (6980579422424269 / 2 ^ 50))\<rparr>"
    by (simp add: handler_unfold [OF ident _ s] handler_moved_keys handler_position_keys pos
          step_from_initial_z)
  have 1: "map_option correctEntityPosRef (run earlyDesktopClick (initial False []))
             = Some \<lparr>vx = Finite (- (3 / 2)), vy = Finite 0, vz = Finite (- 6)\<rparr>"
    by (simp add: run pos)
  have 2: "map_option correctEntityPosRef
             (run (earlyDesktopClick @ [KeyDown ''w'']) (initial False []))
             = Some \<lparr>vx = Finite (- (3 / 2)), vy = Finite 0,
                     vz = Finite (- (6980579422424269 / 2 ^ 50))\<rparr>"
    unfolding run_append run by (simp add: step_def inst h)
  have 3: "Finite (- (225179981368525 / 2 ^ 50)) \<noteq> dneg MOVE_STEP"
    by (simp add: MOVE_STEP_value)
  have 4: "(- (6980579422424269 / 2 ^ 50) :: real) - (- 6) \<noteq> - (2 / 10)" by simp
  from 1 2 MOVE_STEP_value step_difference 3 4 show ?thesis by (intro conjI)
qed

text \<open>
  Claim C10, amended.  A key press reaches the handler only while it is installed.  While
  a correct entity is referenced and the scene handle is present, a press of \<open>w\<close>, \<open>s\<close>,
  \<open>a\<close> or \<open>d\<close>, in lower or upper case, of \<open>ArrowUp\<close> or of \<open>ArrowDown\<close> replaces exactly
  one coordinate \<open>c\<close> of the stored position of the correct entity by the double nearest
  to \<open>c - MOVE_STEP\<close> (\<open>w\<close>: \<open>z\<close>, \<open>a\<close>: \<open>x\<close>, \<open>ArrowDown\<close>: \<open>y\<close>) or to \<open>c + MOVE_STEP\<close>
  (\<open>s\<close>: \<open>z\<close>, \<open>d\<close>: \<open>x\<close>, \<open>ArrowUp\<close>: \<open>y\<close>), where \<^verbatim>\<open>MOVE_STEP\<close> is the double nearest to
  0.2, and leaves the other two as they are; a press of any other key changes nothing.
  Without a referenced correct entity or without the scene handle no key changes anything.
\<close>

theorem keydown_moves_one_coordinate:
  "MOVE_STEP = Finite (3602879701896397 / 2 ^ 54)
   \<and> step (KeyDown key) st = Some (if keydownInstalled st then handler key st else st)
   \<and> (truthy (correctEntityIdRef st) \<and> arSceneRef st \<noteq> None \<longrightarrow>
        ((key = ''w'' \<or> key = ''W'') \<longrightarrow>
           correctEntityPosRef (handler key st)
             = (correctEntityPosRef st)\<lparr>vz := dsub (vz (correctEntityPosRef st)) MOVE_STEP\<rparr>)
      \<and> ((key = ''s'' \<or> key = ''S'') \<longrightarrow>
           correctEntityPosRef (handler key st)
             = (correctEntityPosRef st)\<lparr>vz := dadd (vz (correctEntityPosRef st)) MOVE_STEP\<rparr>)
      \<and> ((key = ''a'' \<or> key = ''A'') \<longrightarrow>
           correctEntityPosRef (handler key st)
             = (correctEntityPosRef st)\<lparr>vx := dsub (vx (correctEntityPosRef st)) MOVE_STEP\<rparr>)
      \<and> ((key = ''d'' \<or> key = ''D'') \<longrightarrow>
           correctEntityPosRef (handler key st)
             = (correctEntityPosRef st)\<lparr>vx := dadd (vx (correctEntityPosRef st)) MOVE_STEP\<rparr>)
      \<and> (key = ''ArrowUp'' \<longrightarrow>
           correctEntityPosRef (handler key st)
             = (correctEntityPosRef st)\<lparr>vy := dadd (vy (correctEntityPosRef st)) MOVE_STEP\<rparr>)
      \<and> (key = ''ArrowDown'' \<longrightarrow>
           correctEntityPosRef (handler key st)
             = (correctEntityPosRef st)\<lparr>vy := dsub (vy (correctEntityPosRef st)) MOVE_STEP\<rparr>)
      \<and> (key \<notin> {''w'', ''W'', ''s'', ''S'', ''a'', ''A'', ''d'', ''D'', ''ArrowUp'', ''ArrowDown''}
           \<longrightarrow> handler key st = st))
   \<and> (\<not> truthy (correctEntityIdRef st) \<or> arSceneRef st = None \<longrightarrow> handler key st = st)"
proof -
  have kd: "step (KeyDown key) st = Some (if keydownInstalled st then handler key st else st)"
    by (simp add: step_def)
  have off: "\<not> truthy (correctEntityIdRef st) \<or> arSceneRef st = None \<longrightarrow> handler key st = st"
    by (auto simp: handler_def truthy_def split: option.splits)
  have on: "truthy (correctEntityIdRef st) \<and> arSceneRef st \<noteq> None \<longrightarrow>
        ((key = ''w'' \<or> key = ''W'') \<longrightarrow>
           correctEntityPosRef (handler key st)
             = (correctEntityPosRef st)\<lparr>vz := dsub (vz (correctEntityPosRef st)) MOVE_STEP\<rparr>)
      \<and> ((key = ''s'' \<or> key = ''S'') \<longrightarrow>
           correctEntityPosRef (handler key st)
             = (correctEntityPosRef st)\<lparr>vz := dadd (vz (correctEntityPosRef st)) MOVE_STEP\<rparr>)
      \<and> ((key = ''a'' \<or> key = ''A'') \<longrightarrow>
           correctEntityPosRef (handler key st)
             = (correctEntityPosRef st)\<lparr>vx := dsub (vx (correctEntityPosRef st)) MOVE_STEP\<rparr>)
      \<and> ((key = ''d'' \<or> key = ''D'') \<longrightarrow>
           correctEntityPosRef (handler key st)
             = (correctEntityPosRef st)\<lparr>vx := dadd (vx (correctEntityPosRef st)) MOVE_STEP\<rparr>)
      \<and> (key = ''ArrowUp'' \<longrightarrow>
           correctEntityPosRef (handler key st)
             = (correctEntityPosRef st)\<lparr>vy := dadd (vy (correctEntityPosRef st)) MOVE_STEP\<rparr>)
      \<and> (key = ''ArrowDown'' \<longrightarrow>
           correctEntityPosRef (handler key st)
             = (correctEntityPosRef st)\<lparr>vy := dsub (vy (correctEntityPosRef st)) MOVE_STEP\<rparr>)
      \<and> (key \<notin> {''w'', ''W'', ''s'', ''S'', ''a'', ''A'', ''d'', ''D'', ''ArrowUp'', ''ArrowDown''}
           \<longrightarrow> handler key st = st)"
  proof (intro impI)
    assume g: "truthy (correctEntityIdRef st) \<and> arSceneRef st \<noteq> None"
    then obtain ident where i: "correctEntityIdRef st = Some ident" "ident \<noteq> []"
      by (auto simp: truthy_def split: option.splits)
    from g obtain sc where sc: "arSceneRef st = Some sc" by auto
    note h = handler_unfold [OF i sc]
    have w: "key = ''w'' \<or> key = ''W'' \<Longrightarrow> correctEntityPosRef (handler key st)
             = (correctEntityPosRef st)\<lparr>vz := dsub (vz (correctEntityPosRef st)) MOVE_STEP\<rparr>"
      by (erule disjE) (simp_all add: h handler_moved_keys handler_position_keys)
    have s: "key = ''s'' \<or> key = ''S'' \<Longrightarrow> correctEntityPosRef (handler key st)
             = (correctEntityPosRef st)\<lparr>vz := dadd (vz (correctEntityPosRef st)) MOVE_STEP\<rparr>"
      by (erule disjE) (simp_all add: h handler_moved_keys handler_position_keys)
    have a: "key = ''a'' \<or> key = ''A'' \<Longrightarrow> correctEntityPosRef (handler key st)
             = (correctEntityPosRef st)\<lparr>vx := dsub (vx (correctEntityPosRef st)) MOVE_STEP\<rparr>"
      by (erule disjE) (simp_all add: h handler_moved_keys handler_position_keys)
    have d: "key = ''d'' \<or> key = ''D'' \<Longrightarrow> correctEntityPosRef (handler key st)
             = (correctEntityPosRef st)\<lparr>vx := dadd (vx (correctEntityPosRef st)) MOVE_STEP\<rparr>"
      by (erule disjE) (simp_all add: h handler_moved_keys handler_position_keys)
    have u: "key = ''ArrowUp'' \<Longrightarrow> correctEntityPosRef (handler key st)
             = (correctEntityPosRef st)\<lparr>vy := dadd (vy (correctEntityPosRef st)) MOVE_STEP\<rparr>"
      by (simp add: h handler_moved_keys handler_position_keys)
    have dn: "key = ''ArrowDown'' \<Longrightarrow> correctEntityPosRef (handler key st)
             = (correctEntityPosRef st)\<lparr>vy := dsub (vy (correctEntityPosRef st)) MOVE_STEP\<rparr>"
      by (simp add: h handler_moved_keys handler_position_keys)
    have other: "key \<notin> {''w'', ''W'', ''s'', ''S'', ''a'', ''A'', ''d'', ''D'', ''ArrowUp'', ''ArrowDown''}
           \<Longrightarrow> handler key st = st"
      using handler_moved_other [of key] by (simp add: h)
    from w s a d u dn other
    show "((key = ''w'' \<or> key = ''W'') \<longrightarrow>
           correctEntityPosRef (handler key st)
             = (correctEntityPosRef st)\<lparr>vz := dsub (vz (correctEntityPosRef st)) MOVE_STEP\<rparr>)
      \<and> ((key = ''s'' \<or> key = ''S'') \<longrightarrow>
           correctEntityPosRef (handler key st)
             = (correctEntityPosRef st)\<lparr>vz := dadd (vz (correctEntityPosRef st)) MOVE_STEP\<rparr>)
      \<and> ((key = ''a'' \<or> key = ''A'') \<longrightarrow>
           correctEntityPosRef (handler key st)
             = (correctEntityPosRef st)\<lparr>vx := dsub (vx (correctEntityPosRef st)) MOVE_STEP\<rparr>)
      \<and> ((key = ''d'' \<or> key = ''D'') \<longrightarrow>
           correctEntityPosRef (handler key st)
             = (correctEntityPosRef st)\<lparr>vx := dadd (vx (correctEntityPosRef st)) MOVE_STEP\<rparr>)
      \<and> (key = ''ArrowUp'' \<longrightarrow>
           correctEntityPosRef (handler key st)
             = (correctEntityPosRef st)\<lparr>vy := dadd (vy (correctEntityPosRef st)) MOVE_STEP\<rparr>)
      \<and> (key = ''ArrowDown'' \<longrightarrow>
           correctEntityPosRef (handler key st)
             = (correctEntityPosRef st)\<lparr>vy := dsub (vy (correctEntityPosRef st)) MOVE_STEP\<rparr>)
      \<and> (key \<notin> {''w'', ''W'', ''s'', ''S'', ''a'', ''A'', ''d'', ''D'', ''ArrowUp'', ''ArrowDown''}
           \<longrightarrow> handler key st = st)"
      by blast
  qed
  from MOVE_STEP_value kd off on show ?thesis by blast
qed

theorem keydown_moves_one_coordinate_witness:
  "map_option correctEntityPosRef
     (run (earlyDesktopClick @ [KeyDown ''ArrowUp'']) (initial False []))
     = Some \<lparr>vx = Finite (- (3 / 2)), vy = Finite (3602879701896397 / 2 ^ 54), vz = Finite (- 6)\<rparr>
   \<and> run (earlyDesktopClick @ [KeyDown ''x'']) (initial False [])
     = run earlyDesktopClick (initial False [])
   \<and> run [KeyDown ''w''] (initial False []) = Some (initial False [])"
proof -
  note run = early_click_state(1) and inst = early_click_state(11)
    and sc = early_click_state(12) and ident = early_click_state(13)
    and pos = early_click_state(14)
  have g: "truthy (correctEntityIdRef afterEarlyClick) \<and> arSceneRef afterEarlyClick \<noteq> None"
    using ident sc by (simp add: truthy_def)
  note up = keydown_moves_one_coordinate [of "''ArrowUp''" afterEarlyClick]
  note x = keydown_moves_one_coordinate [of "''x''" afterEarlyClick]
  note w = keydown_moves_one_coordinate [of "''w''" "initial False []"]
  have "correctEntityPosRef (handler ''ArrowUp'' afterEarlyClick)
          = (correctEntityPosRef afterEarlyClick)
              \<lparr>vy := dadd (vy (correctEntityPosRef afterEarlyClick)) MOVE_STEP\<rparr>"
    using up g by simp
  then have p: "correctEntityPosRef (handler ''ArrowUp'' afterEarlyClick)
          = \<lparr>vx = Finite (- (3 / 2)), vy = Finite (3602879701896397 / 2 ^ 54), vz = Finite (- 6)\<rparr>"
    by (simp add: pos step_from_zero)
  have kd1: "step (KeyDown ''ArrowUp'') afterEarlyClick
               = Some (handler ''ArrowUp'' afterEarlyClick)"
    using up inst by simp
  have 1: "map_option correctEntityPosRef
     (run (earlyDesktopClick @ [KeyDown ''ArrowUp'']) (initial False []))
     = Some \<lparr>vx = Finite (- (3 / 2)), vy = Finite (3602879701896397 / 2 ^ 54), vz = Finite (- 6)\<rparr>"
    unfolding run_append run by (simp add: kd1 p)
  have "handler ''x'' afterEarlyClick = afterEarlyClick" using x g by simp
  then have kd2: "step (KeyDown ''x'') afterEarlyClick = Some afterEarlyClick"
    using x inst by simp
  have 2: "run (earlyDesktopClick @ [KeyDown ''x'']) (initial False [])
     = run earlyDesktopClick (initial False [])"
    unfolding run_append run by (simp add: kd2)
  have "\<not> keydownInstalled (initial False [])" by (simp add: initial_def)
  then have 3: "run [KeyDown ''w''] (initial False []) = Some (initial False [])"
    using w by simp
  from 1 2 3 show ?thesis by (intro conjI)
qed


end
